theory Spec2Isabelle
  imports Complex_Main
begin

section \<open>Data model\<close>

text \<open>
  The script \<^verbatim>\<open>Heterogenous/stacking_HR.py\<close> is a linear sequence of statements over
  pandas data frames and scikit-learn estimators. A data frame is modelled by its row count
  and its ordered, named columns; a cell is what a column of a frame read from a CSV file
  can hold: an integer, a float (idealised as a real number), a string (object columns) or
  the missing marker \<^verbatim>\<open>np.nan\<close>. The dtype of a column is read off its cells, the way
  pandas infers it: \<^verbatim>\<open>int64\<close> when every cell is an integer, \<^verbatim>\<open>object\<close> when a
  string occurs, \<^verbatim>\<open>float64\<close> otherwise.
\<close>

datatype cell = IntV int | FloatV real | StrV string | NaN

datatype dtype = Int64 | Float64 | Object

datatype error =
  KeyError string | TypeError | ValueError | InvalidIndexError | IndexError | NotFittedError

record DataFrame =
  nrows :: nat
  columns :: "(string \<times> cell list) list"

definition names :: "DataFrame \<Rightarrow> string list" where
  "names df = map fst (columns df)"

fun is_int :: "cell \<Rightarrow> bool" where
  "is_int (IntV i) = True"
| "is_int c = False"

fun is_str :: "cell \<Rightarrow> bool" where
  "is_str (StrV s) = True"
| "is_str c = False"

fun is_nan :: "cell \<Rightarrow> bool" where
  "is_nan NaN = True"
| "is_nan c = False"

definition dtype_of :: "cell list \<Rightarrow> dtype" where
  "dtype_of col =
     (if list_ex is_str col then Object
      else if list_all is_int col then Int64 else Float64)"

definition dtypes :: "DataFrame \<Rightarrow> (string \<times> dtype) list" where
  "dtypes df = map (\<lambda>(n, col). (n, dtype_of col)) (columns df)"

text \<open>
  A frame as \<^verbatim>\<open>pd.read_csv\<close> returns it: column labels are distinct (pandas renames
  repeated header fields) and every column has one cell per row.
\<close>

definition wf_df :: "DataFrame \<Rightarrow> bool" where
  "wf_df df =
     (distinct (names df) \<and> list_all (\<lambda>(n, col). length col = nrows df) (columns df))"

section \<open>Cleaning (lines 26-28 and 31-33)\<close>

text \<open>\<^verbatim>\<open>df.replace(['?', '-9'], np.nan, inplace=True)\<close>: a cell equal to one of the two
  strings becomes the missing marker; numbers are not equal to a string and stay.\<close>

definition sentinels :: "string list" where
  "sentinels = [''?'', ''-9'']"

fun replace_cell :: "cell \<Rightarrow> cell" where
  "replace_cell (StrV s) = (if s \<in> set sentinels then NaN else StrV s)"
| "replace_cell c = c"

definition df_replace :: "DataFrame \<Rightarrow> DataFrame" where
  "df_replace df = df\<lparr>columns := map (\<lambda>(n, col). (n, map replace_cell col)) (columns df)\<rparr>"

text \<open>
  \<^verbatim>\<open>df.apply(pd.to_numeric, errors='coerce')\<close>: column by column, a string is parsed as a
  number and becomes the missing marker when it does not parse. The parser of numeric
  literals is pandas'; it is the parameter \<open>parse\<close>. A converted column is \<^verbatim>\<open>int64\<close>
  when every cell is an integer and \<^verbatim>\<open>float64\<close> otherwise, its integers then stored as
  floats.
\<close>

datatype number = ParsedInt int | ParsedFloat real

fun coerce :: "(string \<Rightarrow> number option) \<Rightarrow> cell \<Rightarrow> cell" where
  "coerce parse (StrV s) =
     (case parse s of
        None \<Rightarrow> NaN
      | Some (ParsedInt i) \<Rightarrow> IntV i
      | Some (ParsedFloat r) \<Rightarrow> FloatV r)"
| "coerce parse c = c"

fun to_float :: "cell \<Rightarrow> cell" where
  "to_float (IntV i) = FloatV (of_int i)"
| "to_float c = c"

definition to_numeric :: "(string \<Rightarrow> number option) \<Rightarrow> cell list \<Rightarrow> cell list" where
  "to_numeric parse col =
     (let vs = map (coerce parse) col
      in if list_all is_int vs then vs else map to_float vs)"

definition df_to_numeric :: "(string \<Rightarrow> number option) \<Rightarrow> DataFrame \<Rightarrow> DataFrame" where
  "df_to_numeric parse df =
     df\<lparr>columns := map (\<lambda>(n, col). (n, to_numeric parse col)) (columns df)\<rparr>"

text \<open>
  \<^verbatim>\<open>df.mean()\<close>: per column, the mean of the cells that are not missing
  (\<^verbatim>\<open>skipna=True\<close>); a column with no such cell has the mean \<^verbatim>\<open>nan\<close>, here \<open>None\<close>.
  A column that still holds a string has no mean: pandas raises \<^verbatim>\<open>TypeError\<close>.
\<close>

fun cell_value :: "cell \<Rightarrow> real option" where
  "cell_value (IntV i) = Some (of_int i)"
| "cell_value (FloatV r) = Some r"
| "cell_value c = None"

definition present :: "cell list \<Rightarrow> real list" where
  "present col = List.map_filter cell_value col"

definition mean_of :: "real list \<Rightarrow> real option" where
  "mean_of vs = (if vs = [] then None else Some (sum_list vs / real (length vs)))"

definition series_mean :: "cell list \<Rightarrow> error + real option" where
  "series_mean col = (if list_ex is_str col then Inl TypeError else Inr (mean_of (present col)))"

fun df_mean :: "(string \<times> cell list) list \<Rightarrow> error + (string \<times> real option) list" where
  "df_mean [] = Inr []"
| "df_mean ((n, col) # cs) =
     (case series_mean col of
        Inl e \<Rightarrow> Inl e
      | Inr m \<Rightarrow> (case df_mean cs of Inl e \<Rightarrow> Inl e | Inr ms \<Rightarrow> Inr ((n, m) # ms)))"

text \<open>\<^verbatim>\<open>df.fillna(means, inplace=True)\<close>: a missing cell takes the value the series of
  means holds under the cell's column label; a mean that is itself \<^verbatim>\<open>nan\<close> fills
  nothing.\<close>

fun fill_cell :: "real option \<Rightarrow> cell \<Rightarrow> cell" where
  "fill_cell (Some m) NaN = FloatV m"
| "fill_cell m c = c"

definition fillna :: "(string \<times> real option) list \<Rightarrow> DataFrame \<Rightarrow> DataFrame" where
  "fillna ms df =
     df\<lparr>columns :=
          map (\<lambda>(n, col). (n, case map_of ms n of
                                 None \<Rightarrow> col
                               | Some m \<Rightarrow> map (fill_cell m) col)) (columns df)\<rparr>"

definition clean :: "(string \<Rightarrow> number option) \<Rightarrow> DataFrame \<Rightarrow> error + DataFrame" where
  "clean parse df =
     (let df1 = df_replace df;
          df2 = df_to_numeric parse df1
      in case df_mean (columns df2) of
           Inl e \<Rightarrow> Inl e
         | Inr ms \<Rightarrow> Inr (fillna ms df2))"

text \<open>What the three cleaning steps do to one column.\<close>

definition clean_column :: "(string \<Rightarrow> number option) \<Rightarrow> cell list \<Rightarrow> cell list" where
  "clean_column parse col =
     (let c2 = to_numeric parse (map replace_cell col)
      in map (fill_cell (mean_of (present c2))) c2)"

section \<open>Renaming and the identifier column (lines 36-57)\<close>

definition feature_mapping :: "(string \<times> string) list" where
  "feature_mapping =
     [(''age'', ''Age''),
      (''gender'', ''Sex''),
      (''chestpain'', ''cp''),
      (''restingBP'', ''trestbps''),
      (''serumcholestrol'', ''chol''),
      (''fastingbloodsugar'', ''fbs''),
      (''restingrelectro'', ''restecg''),
      (''maxheartrate'', ''thalach''),
      (''exerciseangia'', ''exang''),
      (''oldpeak'', ''oldpeak''),
      (''slope'', ''slope''),
      (''noofmajorvessels'', ''ca''),
      (''target'', ''num'')]"

definition drop_patientid :: "DataFrame \<Rightarrow> DataFrame" where
  "drop_patientid df =
     (if ''patientid'' \<in> set (names df)
      then df\<lparr>columns := filter (\<lambda>(n, col). n \<noteq> ''patientid'') (columns df)\<rparr>
      else df)"

definition rename_label :: "(string \<times> string) list \<Rightarrow> string \<Rightarrow> string" where
  "rename_label m n = (case map_of m n of None \<Rightarrow> n | Some n' \<Rightarrow> n')"

definition rename :: "(string \<times> string) list \<Rightarrow> DataFrame \<Rightarrow> DataFrame" where
  "rename m df = df\<lparr>columns := map (\<lambda>(n, col). (rename_label m n, col)) (columns df)\<rparr>"

definition harmonize_uci :: "(string \<Rightarrow> number option) \<Rightarrow> DataFrame \<Rightarrow> error + DataFrame" where
  "harmonize_uci parse uci_df = clean parse uci_df"

definition harmonize_india :: "(string \<Rightarrow> number option) \<Rightarrow> DataFrame \<Rightarrow> error + DataFrame" where
  "harmonize_india parse india_df =
     (case clean parse india_df of
        Inl e \<Rightarrow> Inl e
      | Inr df \<Rightarrow> Inr (rename feature_mapping (drop_patientid df)))"

section \<open>Label binarisation (lines 60-61)\<close>

text \<open>
  \<^verbatim>\<open>df['num'] = df['num'].apply(lambda x: 1 if x > 0 else 0)\<close>. Reading the column raises
  \<^verbatim>\<open>KeyError\<close> when no column is labelled \<^verbatim>\<open>num\<close>; with the label repeated the
  selection is a frame, the lambda receives whole columns and the truth value of
  \<^verbatim>\<open>x > 0\<close> raises \<^verbatim>\<open>ValueError\<close>. On a cell, a comparison with the missing marker is
  false, and a string against \<^verbatim>\<open>0\<close> raises \<^verbatim>\<open>TypeError\<close>.
\<close>

fun binarize_value :: "cell \<Rightarrow> error + cell" where
  "binarize_value (IntV i) = Inr (IntV (if i > 0 then 1 else 0))"
| "binarize_value (FloatV r) = Inr (IntV (if r > 0 then 1 else 0))"
| "binarize_value NaN = Inr (IntV 0)"
| "binarize_value (StrV s) = Inl TypeError"

fun series_apply :: "(cell \<Rightarrow> error + cell) \<Rightarrow> cell list \<Rightarrow> error + cell list" where
  "series_apply f [] = Inr []"
| "series_apply f (c # cs) =
     (case f c of
        Inl e \<Rightarrow> Inl e
      | Inr v \<Rightarrow> (case series_apply f cs of Inl e \<Rightarrow> Inl e | Inr vs \<Rightarrow> Inr (v # vs)))"

definition setitem :: "string \<Rightarrow> cell list \<Rightarrow> DataFrame \<Rightarrow> DataFrame" where
  "setitem k v df =
     (if k \<in> set (names df)
      then df\<lparr>columns := map (\<lambda>(n, col). (n, if n = k then v else col)) (columns df)\<rparr>
      else df\<lparr>columns := columns df @ [(k, v)]\<rparr>)"

definition binarize_num :: "DataFrame \<Rightarrow> error + DataFrame" where
  "binarize_num df =
     (case filter (\<lambda>(n, col). n = ''num'') (columns df) of
        [] \<Rightarrow> Inl (KeyError ''num'')
      | [(n, col)] \<Rightarrow>
          (case series_apply binarize_value col of
             Inl e \<Rightarrow> Inl e
           | Inr labels \<Rightarrow> Inr (setitem ''num'' labels df))
      | _ \<Rightarrow> Inl ValueError)"

definition num_column :: "DataFrame \<Rightarrow> cell list" where
  "num_column df = concat (map snd (filter (\<lambda>(n, col). n = ''num'') (columns df)))"

text \<open>The comparison \<^verbatim>\<open>x > 0\<close> read on a cell, and the label the lambda returns.\<close>
definition gt_zero :: "cell \<Rightarrow> bool" where
  "gt_zero c = (case cell_value c of None \<Rightarrow> False | Some v \<Rightarrow> v > 0)"

definition label_of :: "cell \<Rightarrow> cell" where
  "label_of c = IntV (if gt_zero c then 1 else 0)"

section \<open>Combining the two frames (line 64)\<close>

text \<open>
  \<^verbatim>\<open>pd.concat([uci_df, india_df], ignore_index=True)\<close> joins the column labels with the
  default \<^verbatim>\<open>join='outer'\<close>: the result has the labels of the first frame followed by the
  labels only the second has, and a frame without a label contributes missing markers for
  its rows. With equal label sequences the columns are appended as they stand. With
  different label sequences one of which repeats a label, pandas cannot reindex and raises
  \<^verbatim>\<open>InvalidIndexError\<close>. The script makes no comparison of the two schemas itself. An
  appended column takes the common dtype of its parts.
\<close>

definition upcast :: "cell list \<Rightarrow> cell list" where
  "upcast col = (if list_ex is_str col \<or> list_all is_int col then col else map to_float col)"

definition column_or_nan :: "DataFrame \<Rightarrow> string \<Rightarrow> cell list" where
  "column_or_nan df n =
     (case map_of (columns df) n of None \<Rightarrow> replicate (nrows df) NaN | Some col \<Rightarrow> col)"

definition union_labels :: "DataFrame \<Rightarrow> DataFrame \<Rightarrow> string list" where
  "union_labels a b = names a @ filter (\<lambda>n. n \<notin> set (names a)) (names b)"

definition concat_df :: "DataFrame \<Rightarrow> DataFrame \<Rightarrow> error + DataFrame" where
  "concat_df a b =
     (if names a = names b
      then Inr \<lparr>nrows = nrows a + nrows b,
                columns = map (\<lambda>((n, ca), (m, cb)). (n, upcast (ca @ cb)))
                              (zip (columns a) (columns b))\<rparr>
      else if \<not> distinct (names a) \<or> \<not> distinct (names b) then Inl InvalidIndexError
      else Inr \<lparr>nrows = nrows a + nrows b,
                columns = map (\<lambda>n. (n, upcast (column_or_nan a n @ column_or_nan b n)))
                              (union_labels a b)\<rparr>)"

definition combined_data ::
  "(string \<Rightarrow> number option) \<Rightarrow> DataFrame \<Rightarrow> DataFrame \<Rightarrow> error + DataFrame" where
  "combined_data parse uci_df india_df =
     (case harmonize_uci parse uci_df of
        Inl e \<Rightarrow> Inl e
      | Inr u \<Rightarrow>
     (case harmonize_india parse india_df of
        Inl e \<Rightarrow> Inl e
      | Inr i \<Rightarrow>
     (case binarize_num u of
        Inl e \<Rightarrow> Inl e
      | Inr u' \<Rightarrow>
     (case binarize_num i of
        Inl e \<Rightarrow> Inl e
      | Inr i' \<Rightarrow> concat_df u' i'))))"

section \<open>Sampling (line 67)\<close>

text \<open>
  The random number generator is numpy's. Its two operations the script reaches are
  parameters of the model: \<open>RandomState seed\<close>, the generator a seed determines, and
  \<open>permutation g n\<close>, the permutation of \<open>0..<n\<close> a generator draws. A \<^verbatim>\<open>random_state\<close>
  argument is a seed or \<^verbatim>\<open>None\<close>; with \<^verbatim>\<open>None\<close> the global generator of the process is
  used, whose state differs from run to run.
\<close>

record 'g numpy_random =
  RandomState :: "nat \<Rightarrow> 'g"
  permutation :: "'g \<Rightarrow> nat \<Rightarrow> nat list"

datatype random_state = NoSeed | Seed nat

definition check_random_state :: "'g numpy_random \<Rightarrow> 'g \<Rightarrow> random_state \<Rightarrow> 'g" where
  "check_random_state np global rs = (case rs of NoSeed \<Rightarrow> global | Seed s \<Rightarrow> RandomState np s)"

fun take_rows :: "nat list \<Rightarrow> 'a list \<Rightarrow> error + 'a list" where
  "take_rows [] xs = Inr []"
| "take_rows (i # is) xs =
     (if i < length xs
      then (case take_rows is xs of Inl e \<Rightarrow> Inl e | Inr ys \<Rightarrow> Inr (xs ! i # ys))
      else Inl IndexError)"

fun take_columns :: "nat list \<Rightarrow> (string \<times> cell list) list \<Rightarrow> error + (string \<times> cell list) list" where
  "take_columns idx [] = Inr []"
| "take_columns idx ((n, col) # cs) =
     (case take_rows idx col of
        Inl e \<Rightarrow> Inl e
      | Inr col' \<Rightarrow> (case take_columns idx cs of Inl e \<Rightarrow> Inl e | Inr cs' \<Rightarrow> Inr ((n, col') # cs')))"

text \<open>Python's \<^verbatim>\<open>round\<close>: to the nearest integer, a tie to the even one.\<close>

definition py_round :: "real \<Rightarrow> int" where
  "py_round x =
     (let f = \<lfloor>x\<rfloor>; d = x - of_int f
      in if d < 1 / 2 then f else if 1 / 2 < d then f + 1 else if even f then f else f + 1)"

text \<open>
  \<^verbatim>\<open>df.sample(frac=frac, random_state=rs)\<close>: \<^verbatim>\<open>round(frac * len(df))\<close> rows, at the
  positions the first entries of a permutation of the row positions give
  (\<^verbatim>\<open>choice(n, size, replace=False)\<close> of a \<^verbatim>\<open>RandomState\<close>).
\<close>

definition sample ::
  "'g numpy_random \<Rightarrow> 'g \<Rightarrow> real \<Rightarrow> random_state \<Rightarrow> DataFrame \<Rightarrow> error + DataFrame" where
  "sample np global fraction rs df =
     (let n = nrows df;
          size = nat (py_round (fraction * real n));
          idx = take size (permutation np (check_random_state np global rs) n)
      in if list_ex (\<lambda>i. n \<le> i) idx then Inl IndexError
         else case take_columns idx (columns df) of
                Inl e \<Rightarrow> Inl e
              | Inr cs \<Rightarrow> Inr \<lparr>nrows = length idx, columns = cs\<rparr>)"

section \<open>Features and target (lines 70-71)\<close>

definition drop_num :: "DataFrame \<Rightarrow> error + DataFrame" where
  "drop_num df =
     (if ''num'' \<in> set (names df)
      then Inr (df\<lparr>columns := filter (\<lambda>(n, col). n \<noteq> ''num'') (columns df)\<rparr>)
      else Inl (KeyError ''num''))"

definition getitem_num :: "DataFrame \<Rightarrow> error + cell list" where
  "getitem_num df =
     (case filter (\<lambda>(n, col). n = ''num'') (columns df) of
        [] \<Rightarrow> Inl (KeyError ''num'')
      | [(n, col)] \<Rightarrow> Inr col
      | _ \<Rightarrow> Inl ValueError)"

section \<open>Standardisation (lines 74-75)\<close>

text \<open>
  \<^verbatim>\<open>StandardScaler\<close> is scikit-learn's; the model follows its documented behaviour, in
  real arithmetic. The frame is converted to a float matrix, one row per sample
  (\<^verbatim>\<open>ValueError\<close> for a string, for no row and for no column); an entry is \<open>None\<close> where
  the matrix holds \<^verbatim>\<open>nan\<close>. \<^verbatim>\<open>fit\<close> stores (attributes \<^verbatim>\<open>mean_\<close>, \<^verbatim>\<open>var_\<close>, \<^verbatim>\<open>scale_\<close>), per column, the mean and the population
  variance of the entries present, and the scale: the square root of the variance, and
  \<open>1\<close> where the variance is zero (\<^verbatim>\<open>_handle_zeros_in_scale\<close>). \<^verbatim>\<open>transform\<close> maps an
  entry \<open>x\<close> of a column to \<open>(x - mean) / scale\<close>. Neither raises for a constant column.
\<close>

type_synonym matrix = "real option list list"

fun to_entry :: "cell \<Rightarrow> error + real option" where
  "to_entry (IntV i) = Inr (Some (of_int i))"
| "to_entry (FloatV r) = Inr (Some r)"
| "to_entry NaN = Inr None"
| "to_entry (StrV s) = Inl ValueError"

fun to_entries :: "cell list \<Rightarrow> error + real option list" where
  "to_entries [] = Inr []"
| "to_entries (c # cs) =
     (case to_entry c of
        Inl e \<Rightarrow> Inl e
      | Inr v \<Rightarrow> (case to_entries cs of Inl e \<Rightarrow> Inl e | Inr vs \<Rightarrow> Inr (v # vs)))"

fun to_feature_columns :: "(string \<times> cell list) list \<Rightarrow> error + real option list list" where
  "to_feature_columns [] = Inr []"
| "to_feature_columns ((n, col) # cs) =
     (case to_entries col of
        Inl e \<Rightarrow> Inl e
      | Inr v \<Rightarrow> (case to_feature_columns cs of Inl e \<Rightarrow> Inl e | Inr vs \<Rightarrow> Inr (v # vs)))"

definition column_of :: "matrix \<Rightarrow> nat \<Rightarrow> real option list" where
  "column_of X j = map (\<lambda>row. row ! j) X"

definition n_features :: "matrix \<Rightarrow> nat" where
  "n_features X = (case X of [] \<Rightarrow> 0 | row # rows \<Rightarrow> length row)"

text \<open>A matrix is rectangular: every row has the number of columns of the first.\<close>

definition rect :: "matrix \<Rightarrow> bool" where
  "rect X = list_all (\<lambda>row. length row = n_features X) X"

definition to_array :: "DataFrame \<Rightarrow> error + matrix" where
  "to_array df =
     (case to_feature_columns (columns df) of
        Inl e \<Rightarrow> Inl e
      | Inr cols \<Rightarrow> Inr (map (\<lambda>i. map (\<lambda>col. col ! i) cols) [0..<nrows df]))"

record scaler =
  mean_attr :: "real option list"
  var_attr :: "real option list"
  scale_attr :: "real option list"

definition entries_present :: "real option list \<Rightarrow> real list" where
  "entries_present col = List.map_filter (\<lambda>v. v) col"

definition variance_of :: "real list \<Rightarrow> real option" where
  "variance_of vs =
     (case mean_of vs of
        None \<Rightarrow> None
      | Some m \<Rightarrow> Some (sum_list (map (\<lambda>v. (v - m)\<^sup>2) vs) / real (length vs)))"

definition scale_of :: "real option \<Rightarrow> real option" where
  "scale_of v = (case v of None \<Rightarrow> None | Some x \<Rightarrow> Some (if x = 0 then 1 else sqrt x))"

definition fit :: "matrix \<Rightarrow> error + scaler" where
  "fit X =
     (if X = [] \<or> n_features X = 0 then Inl ValueError
      else let cols = map (\<lambda>j. entries_present (column_of X j)) [0..<n_features X]
           in Inr \<lparr>mean_attr = map mean_of cols,
                   var_attr = map variance_of cols,
                   scale_attr = map (\<lambda>c. scale_of (variance_of c)) cols\<rparr>)"

definition transform_entry :: "scaler \<Rightarrow> nat \<Rightarrow> real option \<Rightarrow> real option" where
  "transform_entry s j v =
     (case (v, mean_attr s ! j, scale_attr s ! j) of
        (Some x, Some m, Some d) \<Rightarrow> Some ((x - m) / d)
      | _ \<Rightarrow> None)"

definition transform_row :: "scaler \<Rightarrow> real option list \<Rightarrow> real option list" where
  "transform_row s row = map (\<lambda>j. transform_entry s j (row ! j)) [0..<length row]"

definition transform :: "scaler \<Rightarrow> matrix \<Rightarrow> error + matrix" where
  "transform s X =
     (if X = [] \<or> n_features X \<noteq> length (mean_attr s) then Inl ValueError
      else Inr (map (transform_row s) X))"

definition fit_transform :: "matrix \<Rightarrow> error + scaler \<times> matrix" where
  "fit_transform X =
     (case fit X of
        Inl e \<Rightarrow> Inl e
      | Inr s \<Rightarrow> (case transform s X of Inl e \<Rightarrow> Inl e | Inr Y \<Rightarrow> Inr (s, Y)))"

section \<open>Train/test split (line 78)\<close>

text \<open>
  \<^verbatim>\<open>train_test_split(X, y, test_size=t, random_state=rs)\<close>: with \<open>n\<close> samples the test part
  has \<open>\<lceil>t * n\<rceil>\<close> of them and the training part the rest (\<^verbatim>\<open>ValueError\<close> when that leaves
  none); a permutation of the positions is drawn, its first entries are the test
  positions and the following ones the training positions.
\<close>

record 'a split =
  X_train :: "matrix"
  X_test :: "matrix"
  y_train :: "'a list"
  y_test :: "'a list"

definition split_indices ::
  "'g numpy_random \<Rightarrow> 'g \<Rightarrow> real \<Rightarrow> random_state \<Rightarrow> nat \<Rightarrow> error + nat list \<times> nat list" where
  "split_indices np global test_size rs n =
     (let n_test = nat \<lceil>test_size * real n\<rceil>;
          n_train = n - n_test
      in if n_train = 0 then Inl ValueError
         else let p = permutation np (check_random_state np global rs) n
              in Inr (take n_train (drop n_test p), take n_test p))"

definition train_test_split ::
  "'g numpy_random \<Rightarrow> 'g \<Rightarrow> matrix \<Rightarrow> 'a list \<Rightarrow> real \<Rightarrow> random_state \<Rightarrow> error + 'a split" where
  "train_test_split np global X y test_size rs =
     (if length X \<noteq> length y then Inl ValueError
      else case split_indices np global test_size rs (length X) of
        Inl e \<Rightarrow> Inl e
      | Inr (train, test) \<Rightarrow>
     (case take_rows train X of Inl e \<Rightarrow> Inl e | Inr Xtr \<Rightarrow>
     (case take_rows test X of Inl e \<Rightarrow> Inl e | Inr Xte \<Rightarrow>
     (case take_rows train y of Inl e \<Rightarrow> Inl e | Inr ytr \<Rightarrow>
     (case take_rows test y of Inl e \<Rightarrow> Inl e | Inr yte \<Rightarrow>
        Inr \<lparr>X_train = Xtr, X_test = Xte, y_train = ytr, y_test = yte\<rparr>)))))"

text \<open>Lines 74-78 on the feature matrix and the labels of the sample: the scaler is fit
  and applied to the whole matrix, and the scaled matrix is split afterwards.\<close>

definition normalize_and_split ::
  "'g numpy_random \<Rightarrow> 'g \<Rightarrow> matrix \<Rightarrow> 'a list \<Rightarrow> error + scaler \<times> 'a split" where
  "normalize_and_split np global X y =
     (case fit_transform X of
        Inl e \<Rightarrow> Inl e
      | Inr (scaler, X_scaled) \<Rightarrow>
          (case train_test_split np global X_scaled y (2 / 10) (Seed 42) of
             Inl e \<Rightarrow> Inl e
           | Inr parts \<Rightarrow> Inr (scaler, parts)))"

text \<open>Lines 67-78 on the combined frame.\<close>

definition prepare ::
  "'g numpy_random \<Rightarrow> 'g \<Rightarrow> DataFrame \<Rightarrow> error + DataFrame \<times> scaler \<times> cell split" where
  "prepare np global combined =
     (case sample np global (1 / 10) (Seed 42) combined of
        Inl e \<Rightarrow> Inl e
      | Inr data_sampled \<Rightarrow>
     (case drop_num data_sampled of Inl e \<Rightarrow> Inl e | Inr X \<Rightarrow>
     (case getitem_num data_sampled of Inl e \<Rightarrow> Inl e | Inr y \<Rightarrow>
     (case to_array X of Inl e \<Rightarrow> Inl e | Inr A \<Rightarrow>
     (case normalize_and_split np global A y of
        Inl e \<Rightarrow> Inl e
      | Inr (scaler, parts) \<Rightarrow> Inr (data_sampled, scaler, parts))))))"

section \<open>Diversity statistic (lines 160-163)\<close>

text \<open>
  \<^verbatim>\<open>pred_matrix = np.vstack((knn_pred, svm_pred, dt_pred)).T\<close> has one row per test
  instance and one column per learner. \<^verbatim>\<open>pairwise_distances(pred_matrix, metric='hamming')\<close>
  is scikit-learn's: the matrix of the Hamming distances between the \<^emph>\<open>rows\<close> of its
  argument, the distance of two rows being the fraction of positions where they differ;
  it raises \<^verbatim>\<open>ValueError\<close> for an array without rows. \<^verbatim>\<open>.mean()\<close> is the mean of all
  entries of that matrix.
\<close>

definition vstack_T :: "int list \<Rightarrow> int list \<Rightarrow> int list \<Rightarrow> error + int list list" where
  "vstack_T a b c =
     (if length a = length b \<and> length b = length c
      then Inr (map (\<lambda>i. [a ! i, b ! i, c ! i]) [0..<length a])
      else Inl ValueError)"

definition hamming :: "int list \<Rightarrow> int list \<Rightarrow> real" where
  "hamming u v = real (length (filter (\<lambda>(x, y). x \<noteq> y) (zip u v))) / real (length u)"

definition pairwise_distances :: "int list list \<Rightarrow> error + real list list" where
  "pairwise_distances M =
     (if M = [] then Inl ValueError else Inr (map (\<lambda>u. map (\<lambda>v. hamming u v) M) M))"

definition array_mean :: "real list list \<Rightarrow> real" where
  "array_mean D = sum_list (concat D) / real (length (concat D))"

definition disagreements :: "int list \<Rightarrow> int list \<Rightarrow> int list \<Rightarrow> error + real" where
  "disagreements knn_pred svm_pred dt_pred =
     (case vstack_T knn_pred svm_pred dt_pred of
        Inl e \<Rightarrow> Inl e
      | Inr pred_matrix \<Rightarrow>
          (case pairwise_distances pred_matrix of
             Inl e \<Rightarrow> Inl e
           | Inr D \<Rightarrow> Inr (array_mean D)))"

text \<open>
  The statistic as the specification words it, for comparison: the Hamming disagreement of
  two learners is the fraction of test instances on which their predictions differ, and
  the diversity score is its mean over the three pairs of learners.
\<close>

definition learner_disagreement :: "int list \<Rightarrow> int list \<Rightarrow> int list \<Rightarrow> real" where
  "learner_disagreement a b c = (hamming a b + hamming a c + hamming b c) / 3"

section \<open>Estimators and the grid search (lines 81-112, 152-157)\<close>

text \<open>
  The estimators are scikit-learn objects; the script shares them by reference: the list
  \<^verbatim>\<open>estimators\<close> of \<^verbatim>\<open>stacking_model\<close> holds the very objects \<^verbatim>\<open>knn\<close>, \<^verbatim>\<open>svm\<close> and
  \<^verbatim>\<open>dt\<close> that lines 152-157 fit again. The model is a store of objects addressed by
  position. A plain estimator has its class, its hyperparameters (those the script sets
  or searches, with the defaults of the constructor) and, once fit, its learned model; a
  stacking classifier has the addresses of its named estimators and of its final
  estimator, its fold count and, once fit, the addresses of the fitted copies
  (\<^verbatim>\<open>estimators_\<close>, \<^verbatim>\<open>final_estimator_\<close>).

  What the objects do follows scikit-learn's documented behaviour: \<^verbatim>\<open>clone\<close> builds a new
  unfitted object with copies of the parameters, estimators held as parameters being
  cloned in turn; \<^verbatim>\<open>set_params\<close> with a key \<^verbatim>\<open>component__parameter\<close> changes the
  parameter of the component object in place (\<^verbatim>\<open>ValueError\<close> for a name the object
  does not have; keys are kept here as the pair of the two names); \<^verbatim>\<open>fit\<close> of a plain
  estimator stores the learned model in the object; \<^verbatim>\<open>fit\<close> of a stacking classifier
  fits clones of its estimators and a clone of its final estimator; \<^verbatim>\<open>GridSearchCV.fit\<close>
  clones its estimator for every candidate and fold, sets the candidate's parameters on
  the clone, fits and scores it, and at the end fits one more clone with the best
  candidate. Learning, predicting, the folds and the scores are parameters of the model.
\<close>

type_synonym addr = nat

datatype pval = PNone | PInt int | PReal real | PStr string | PBool bool

type_synonym params = "(string \<times> pval) list"

datatype 'm estimator =
    Base string params "'m option"
  | Stacking "(string \<times> addr) list" addr nat "(addr list \<times> addr) option"

type_synonym 'm store = "'m estimator list"

record ('m, 'd) sklearn =
  learn :: "string \<Rightarrow> params \<Rightarrow> 'd \<Rightarrow> 'm"
  predict :: "'m \<Rightarrow> matrix \<Rightarrow> int list"
  meta_data :: "'m list \<Rightarrow> 'd \<Rightarrow> 'd"
  fold_train :: "nat \<Rightarrow> 'd \<Rightarrow> 'd"
  score :: "'m store \<Rightarrow> addr \<Rightarrow> nat \<Rightarrow> 'd \<Rightarrow> real"

definition clone_base :: "'m store \<Rightarrow> addr \<Rightarrow> 'm store \<times> addr" where
  "clone_base s a =
     (case s ! a of
        Base c h m \<Rightarrow> (s @ [Base c h None], length s)
      | Stacking es f k fitted \<Rightarrow> (s @ [Stacking es f k None], length s))"

fun clone_children :: "'m store \<Rightarrow> (string \<times> addr) list \<Rightarrow> 'm store \<times> (string \<times> addr) list" where
  "clone_children s [] = (s, [])"
| "clone_children s ((n, a) # es) =
     (let (s1, a') = clone_base s a;
          (s2, es') = clone_children s1 es
      in (s2, (n, a') # es'))"

definition clone :: "'m store \<Rightarrow> addr \<Rightarrow> 'm store \<times> addr" where
  "clone s a =
     (case s ! a of
        Base c h m \<Rightarrow> clone_base s a
      | Stacking es f k fitted \<Rightarrow>
          (let (s1, es') = clone_children s es;
               (s2, f') = clone_base s1 f
           in (s2 @ [Stacking es' f' k None], length s2)))"

definition update_param :: "string \<Rightarrow> pval \<Rightarrow> params \<Rightarrow> params" where
  "update_param p v h = map (\<lambda>(k, x). (k, if k = p then v else x)) h"

definition set_base_param :: "'m store \<Rightarrow> addr \<Rightarrow> string \<Rightarrow> pval \<Rightarrow> error + 'm store" where
  "set_base_param s a p v =
     (case s ! a of
        Base c h m \<Rightarrow>
          (if p \<in> set (map fst h) then Inr (s[a := Base c (update_param p v h) m])
           else Inl ValueError)
      | Stacking es f k fitted \<Rightarrow> Inl ValueError)"

definition set_param :: "'m store \<Rightarrow> addr \<Rightarrow> (string \<times> string) \<times> pval \<Rightarrow> error + 'm store" where
  "set_param s a kv =
     (case kv of ((component, p), v) \<Rightarrow>
        (case s ! a of
           Base c h m \<Rightarrow> Inl ValueError
         | Stacking es f k fitted \<Rightarrow>
             (if component = ''final_estimator'' then set_base_param s f p v
              else case map_of es component of
                     None \<Rightarrow> Inl ValueError
                   | Some b \<Rightarrow> set_base_param s b p v)))"

fun set_params :: "'m store \<Rightarrow> addr \<Rightarrow> ((string \<times> string) \<times> pval) list \<Rightarrow> error + 'm store" where
  "set_params s a [] = Inr s"
| "set_params s a (kv # kvs) =
     (case set_param s a kv of Inl e \<Rightarrow> Inl e | Inr s' \<Rightarrow> set_params s' a kvs)"

definition fit_base :: "('m, 'd) sklearn \<Rightarrow> 'm store \<Rightarrow> addr \<Rightarrow> 'd \<Rightarrow> 'm store" where
  "fit_base L s a d =
     (case s ! a of
        Base c h m \<Rightarrow> s[a := Base c h (Some (learn L c h d))]
      | Stacking es f k fitted \<Rightarrow> s)"

fun fit_clones :: "('m, 'd) sklearn \<Rightarrow> 'm store \<Rightarrow> addr list \<Rightarrow> 'd \<Rightarrow> 'm store \<times> addr list" where
  "fit_clones L s [] d = (s, [])"
| "fit_clones L s (a # as) d =
     (let (s1, a') = clone_base s a;
          s2 = fit_base L s1 a' d;
          (s3, as') = fit_clones L s2 as d
      in (s3, a' # as'))"

definition model_of :: "'m estimator \<Rightarrow> 'm option" where
  "model_of x = (case x of Base c h m \<Rightarrow> m | Stacking es f k fitted \<Rightarrow> None)"

definition fit_estimator :: "('m, 'd) sklearn \<Rightarrow> 'm store \<Rightarrow> addr \<Rightarrow> 'd \<Rightarrow> 'm store" where
  "fit_estimator L s a d =
     (case s ! a of
        Base c h m \<Rightarrow> fit_base L s a d
      | Stacking es f k fitted \<Rightarrow>
          (let (s1, as') = fit_clones L s (map snd es) d;
               models = List.map_filter (\<lambda>b. model_of (s1 ! b)) as';
               (s2, f') = clone_base s1 f;
               s3 = fit_base L s2 f' (meta_data L models d)
           in s3[a := Stacking es f k (Some (as', f'))]))"

definition predict_estimator :: "('m, 'd) sklearn \<Rightarrow> 'm store \<Rightarrow> addr \<Rightarrow> matrix \<Rightarrow> error + int list" where
  "predict_estimator L s a X =
     (case model_of (s ! a) of None \<Rightarrow> Inl NotFittedError | Some m \<Rightarrow> Inr (predict L m X))"

text \<open>\<^verbatim>\<open>ParameterGrid\<close>: every choice of one value per key, the first key varying slowest.\<close>

fun ParameterGrid :: "('k \<times> 'v list) list \<Rightarrow> ('k \<times> 'v) list list" where
  "ParameterGrid [] = [[]]"
| "ParameterGrid ((k, vs) # g) = concat (map (\<lambda>v. map (\<lambda>c. (k, v) # c) (ParameterGrid g)) vs)"

fun cv_fits ::
  "('m, 'd) sklearn \<Rightarrow> 'm store \<Rightarrow> addr \<Rightarrow> ((string \<times> string) \<times> pval) list \<Rightarrow> 'd \<Rightarrow> nat list
   \<Rightarrow> error + 'm store \<times> real list" where
  "cv_fits L s base cand d [] = Inr (s, [])"
| "cv_fits L s base cand d (k # ks) =
     (let (s1, c) = clone s base
      in case set_params s1 c cand of
           Inl e \<Rightarrow> Inl e
         | Inr s2 \<Rightarrow>
             (let s3 = fit_estimator L s2 c (fold_train L k d)
              in case cv_fits L s3 base cand d ks of
                   Inl e \<Rightarrow> Inl e
                 | Inr (s4, scores) \<Rightarrow> Inr (s4, score L s3 c k d # scores)))"

fun evaluate_candidates ::
  "('m, 'd) sklearn \<Rightarrow> 'm store \<Rightarrow> addr \<Rightarrow> 'd \<Rightarrow> nat list
   \<Rightarrow> ((string \<times> string) \<times> pval) list list \<Rightarrow> error + 'm store \<times> real list" where
  "evaluate_candidates L s base d folds [] = Inr (s, [])"
| "evaluate_candidates L s base d folds (cand # cands) =
     (case cv_fits L s base cand d folds of
        Inl e \<Rightarrow> Inl e
      | Inr (s1, scores) \<Rightarrow>
          (case evaluate_candidates L s1 base d folds cands of
             Inl e \<Rightarrow> Inl e
           | Inr (s2, means) \<Rightarrow> Inr (s2, sum_list scores / real (length scores) # means)))"

text \<open>The position of the first greatest mean score.\<close>

fun best_index :: "real list \<Rightarrow> nat" where
  "best_index [] = 0"
| "best_index (x # xs) = (if list_all (\<lambda>y. y \<le> x) xs then 0 else Suc (best_index xs))"

definition grid_search_fit ::
  "('m, 'd) sklearn \<Rightarrow> 'm store \<Rightarrow> addr \<Rightarrow> ((string \<times> string) \<times> pval list) list \<Rightarrow> nat \<Rightarrow> 'd
   \<Rightarrow> error + 'm store \<times> ((string \<times> string) \<times> pval) list \<times> addr" where
  "grid_search_fit L s base grid cv d =
     (let candidates = ParameterGrid grid
      in case evaluate_candidates L s base d [0..<cv] candidates of
           Inl e \<Rightarrow> Inl e
         | Inr (s1, means) \<Rightarrow>
             (let best_params = candidates ! best_index means;
                  (s2, best_estimator) = clone s1 base
              in case set_params s2 best_estimator best_params of
                   Inl e \<Rightarrow> Inl e
                 | Inr s3 \<Rightarrow> Inr (fit_estimator L s3 best_estimator d, best_params, best_estimator)))"

text \<open>Lines 81-97: the objects the script constructs, in order of construction.\<close>

definition knn :: addr where "knn = 0"
definition svm :: addr where "svm = 1"
definition dt :: addr where "dt = 2"
definition meta_model :: addr where "meta_model = 3"
definition stacking_model :: addr where "stacking_model = 4"

definition knn_params :: params where
  "knn_params = [(''n_neighbors'', PInt 5)]"

definition svm_params :: params where
  "svm_params = [(''C'', PReal 1), (''kernel'', PStr ''rbf''), (''probability'', PBool True),
                 (''random_state'', PInt 42)]"

definition dt_params :: params where
  "dt_params = [(''max_depth'', PNone), (''random_state'', PInt 42)]"

definition meta_params :: params where
  "meta_params = [(''C'', PReal 1)]"

definition initial_store :: "'m store" where
  "initial_store =
     [Base ''KNeighborsClassifier'' knn_params None,
      Base ''SVC'' svm_params None,
      Base ''DecisionTreeClassifier'' dt_params None,
      Base ''LogisticRegression'' meta_params None,
      Stacking [(''knn'', knn), (''svm'', svm), (''dt'', dt)] meta_model 5 None]"

text \<open>Lines 100-106, the keys in the sorted order in which \<^verbatim>\<open>ParameterGrid\<close> takes them.\<close>

definition param_grid :: "((string \<times> string) \<times> pval list) list" where
  "param_grid =
     [((''dt'', ''max_depth''), [PNone, PInt 5]),
      ((''final_estimator'', ''C''), [PReal (1 / 10), PReal 1]),
      ((''knn'', ''n_neighbors''), [PInt 3, PInt 5]),
      ((''svm'', ''C''), [PReal (1 / 10), PReal 1]),
      ((''svm'', ''kernel''), [PStr ''linear'', PStr ''rbf''])]"

text \<open>Lines 152-163 on a store: the three base learners are fit on the training part and
  predict the test part, and the predictions go into the diversity statistic.\<close>

definition diversity_stage ::
  "('m, 'd) sklearn \<Rightarrow> 'm store \<Rightarrow> 'd \<Rightarrow> matrix \<Rightarrow> error + real" where
  "diversity_stage L s train test =
     (let s1 = fit_estimator L s knn train
      in case predict_estimator L s1 knn test of Inl e \<Rightarrow> Inl e | Inr knn_pred \<Rightarrow>
     (let s2 = fit_estimator L s1 svm train
      in case predict_estimator L s2 svm test of Inl e \<Rightarrow> Inl e | Inr svm_pred \<Rightarrow>
     (let s3 = fit_estimator L s2 dt train
      in case predict_estimator L s3 dt test of Inl e \<Rightarrow> Inl e | Inr dt_pred \<Rightarrow>
        disagreements knn_pred svm_pred dt_pred)))"

text \<open>Lines 81-163, as far as the estimators go: construction, grid search, diversity.\<close>

definition grid_search_then_diversity ::
  "('m, 'd) sklearn \<Rightarrow> 'd \<Rightarrow> matrix \<Rightarrow> error + real" where
  "grid_search_then_diversity L train test =
     (case grid_search_fit L initial_store stacking_model param_grid 5 train of
        Inl e \<Rightarrow> Inl e
      | Inr (s, best_params, best_estimator) \<Rightarrow> diversity_stage L s train test)"

text \<open>A candidate of the grid: one value for each of the five keys.\<close>

definition candidate_of :: "pval \<Rightarrow> pval \<Rightarrow> pval \<Rightarrow> pval \<Rightarrow> pval \<Rightarrow> ((string \<times> string) \<times> pval) list" where
  "candidate_of v1 v2 v3 v4 v5 =
     [((''dt'', ''max_depth''), v1), ((''final_estimator'', ''C''), v2),
      ((''knn'', ''n_neighbors''), v3), ((''svm'', ''C''), v4), ((''svm'', ''kernel''), v5)]"

section \<open>Valid inputs\<close>

text \<open>
  The two input files the script is written for: the first frame carries the canonical
  labels (the right-hand sides of \<open>feature_mapping\<close>), the second the left-hand sides and
  possibly the identifier column \<^verbatim>\<open>patientid\<close>.
\<close>

definition canonical_names :: "string list" where
  "canonical_names = map snd feature_mapping"

definition source_names :: "string list" where
  "source_names = map fst feature_mapping"

definition valid_uci :: "DataFrame \<Rightarrow> bool" where
  "valid_uci df = (wf_df df \<and> set (names df) = set canonical_names)"

definition valid_india :: "DataFrame \<Rightarrow> bool" where
  "valid_india df =
     (wf_df df \<and> set (filter (\<lambda>n. n \<noteq> ''patientid'') (names df)) = set source_names)"

section \<open>Example frames\<close>

definition uci_ex :: DataFrame where
  "uci_ex = \<lparr>nrows = 4, columns = [(''Age'', [IntV 63, IntV 41, FloatV 50, NaN]),
                         (''num'', [IntV 2, IntV 0, FloatV (-1), NaN])]\<rparr>"

definition parse_ex :: "string \<Rightarrow> number option" where
  "parse_ex s = (if s = ''60'' then Some (ParsedInt 60)
                 else if s = ''40'' then Some (ParsedInt 40)
                 else if s = ''1.5'' then Some (ParsedFloat (3/2)) else None)"

definition raw_ex :: DataFrame where
  "raw_ex = \<lparr>nrows = 4,
             columns = [(''Age'', [StrV ''60'', StrV ''?'', StrV ''40'', StrV ''n/a'']),
                        (''ca'', [StrV ''-9'', StrV ''?'', StrV ''-9'', StrV ''?'']),
                        (''num'', [IntV 2, IntV 0, IntV 1, IntV 0])]\<rparr>"

definition sentinel_ex :: DataFrame where
  "sentinel_ex = \<lparr>nrows = 3,
                  columns = [(''ca'', [FloatV 3, FloatV (- 9), NaN]),
                             (''thal'', [IntV 3, IntV (- 9), IntV 6]),
                             (''chol'', [StrV ''60'', StrV ''-9'', StrV ''?''])]\<rparr>"

definition nan_ex :: DataFrame where
  "nan_ex = \<lparr>nrows = 3, columns = [(''Age'', [FloatV 60, FloatV 50, FloatV 40]),
                                    (''num'', [NaN, FloatV 2, NaN])]\<rparr>"

definition uci_c3 :: DataFrame where
  "uci_c3 = \<lparr>nrows = 1, columns = [(''Age'', [IntV 63]), (''num'', [IntV 1])]\<rparr>"

definition india_c3 :: DataFrame where
  "india_c3 = \<lparr>nrows = 1, columns = [(''chol'', [IntV 200]), (''num'', [IntV 0])]\<rparr>"

definition uci_c4 :: DataFrame where
  "uci_c4 = \<lparr>nrows = 2,
             columns = map (\<lambda>n. (n, if n = ''ca'' then [StrV ''?'', StrV ''60'']
                                     else [IntV 1, IntV 0])) canonical_names\<rparr>"

definition india_c4 :: DataFrame where
  "india_c4 = \<lparr>nrows = 2,
               columns = (''patientid'', [IntV 7, IntV 8])
                         # map (\<lambda>n. (n, [IntV 1, IntV 0])) source_names\<rparr>"

definition uci_c4_h :: DataFrame where
  "uci_c4_h = \<lparr>nrows = 2,
             columns = map (\<lambda>n. (n, if n = ''ca'' then [FloatV 60, FloatV 60]
                                     else [IntV 1, IntV 0])) canonical_names\<rparr>"

definition india_c4_h :: DataFrame where
  "india_c4_h = \<lparr>nrows = 2, columns = map (\<lambda>n. (n, [IntV 1, IntV 0])) canonical_names\<rparr>"

definition np_ex :: "bool numpy_random" where
  "np_ex = \<lparr>RandomState = (\<lambda>seed. even seed),
            permutation = (\<lambda>g n. if g then [0..<n] else rev [0..<n])\<rparr>"

definition X_c1 :: matrix where
  "X_c1 = [[Some 10], [Some 1], [Some 2], [Some 3], [Some 4]]"

definition X_c1' :: matrix where
  "X_c1' = [[Some 20], [Some 1], [Some 2], [Some 3], [Some 4]]"

definition y_c1 :: "cell list" where
  "y_c1 = [IntV 0, IntV 1, IntV 0, IntV 1, IntV 0]"

definition X_c5 :: matrix where
  "X_c5 = [[Some 5, Some 1], [Some 5, Some 3]]"

definition X_w :: matrix where
  "X_w = [[Some 1], [Some 3], [Some 1], [Some 3]]"

definition y_w :: "cell list" where
  "y_w = [IntV 0, IntV 1, IntV 0, IntV 1]"

definition combined_ex :: DataFrame where
  "combined_ex = \<lparr>nrows = 15,
     columns = [(''Age'', map IntV [50, 51, 52, 53, 54, 55, 56, 57, 58, 59, 60, 61, 62, 63, 64]),
                (''num'', map IntV [0, 1, 0, 1, 0, 1, 0, 1, 0, 1, 0, 1, 0, 1, 0])]\<rparr>"

definition L_ex :: "(nat, nat) sklearn" where
  "L_ex = \<lparr>learn = (\<lambda>c h d. length h + d),
           predict = (\<lambda>m X. map (\<lambda>row. int m) X),
           meta_data = (\<lambda>ms d. d),
           fold_train = (\<lambda>k d. d + k),
           score = (\<lambda>s a k d. real k)\<rparr>"

section \<open>Properties of cleaning\<close>

lemma coerce_no_str: "\<not> is_str (coerce parse c)"
  by (cases c) (simp_all split: option.splits number.splits)

lemma to_float_no_str: "is_str (to_float c) = is_str c"
  by (cases c) simp_all

lemma to_numeric_no_str: "\<not> list_ex is_str (to_numeric parse col)"
  by (simp add: to_numeric_def Let_def list_ex_iff coerce_no_str to_float_no_str)

lemma length_to_numeric: "length (to_numeric parse col) = length col"
  by (simp add: to_numeric_def Let_def)

lemma cell_value_to_float: "cell_value (to_float c) = cell_value c"
  by (cases c) simp_all

lemma to_numeric_nth_value:
  "i < length col \<Longrightarrow> cell_value (to_numeric parse col ! i) = cell_value (coerce parse (col ! i))"
  by (simp add: to_numeric_def Let_def cell_value_to_float)

lemma present_map_to_float: "present (map to_float col) = present col"
  by (induction col)
    (simp_all add: present_def List.map_filter_simps cell_value_to_float split: option.splits)

lemma present_to_numeric: "present (to_numeric parse col) = present (map (coerce parse) col)"
  by (simp add: to_numeric_def Let_def present_map_to_float del: map_map)

lemma df_mean_no_str:
  "list_all (\<lambda>(n, col). \<not> list_ex is_str col) cs \<Longrightarrow>
   df_mean cs = Inr (map (\<lambda>(n, col). (n, mean_of (present col))) cs)"
  by (induction cs) (auto simp: series_mean_def)

lemma map_of_col_fun:
  "distinct (map fst cs) \<Longrightarrow> (n, col) \<in> set cs \<Longrightarrow>
   map_of (map (\<lambda>(n, col). (n, f col)) cs) n = Some (f col)"
  by (induction cs) (auto simp: rev_image_eqI)

lemma fill_own_means:
  assumes "distinct (map fst cs)"
  shows "map (\<lambda>(n, col). (n, case map_of (map (\<lambda>(n, col). (n, f col)) cs) n of
                                 None \<Rightarrow> col
                               | Some m \<Rightarrow> g m col)) cs
         = map (\<lambda>(n, col). (n, g (f col) col)) cs"
proof (rule map_cong[OF refl])
  fix x assume x: "x \<in> set cs"
  obtain n col where nc: "x = (n, col)" by (cases x)
  with x assms have "map_of (map (\<lambda>(n, col). (n, f col)) cs) n = Some (f col)"
    by (simp add: map_of_col_fun)
  with nc show "(case x of (n, col) \<Rightarrow> (n, case map_of (map (\<lambda>(n, col). (n, f col)) cs) n of
                                 None \<Rightarrow> col
                               | Some m \<Rightarrow> g m col))
        = (case x of (n, col) \<Rightarrow> (n, g (f col) col))"
    by simp
qed

lemma clean_columns:
  assumes "distinct (names df)"
  shows "clean parse df = Inr (df\<lparr>columns := map (\<lambda>(n, col). (n, clean_column parse col)) (columns df)\<rparr>)"
proof -
  define df2 where "df2 = df_to_numeric parse (df_replace df)"
  let ?c2 = "map (\<lambda>(n, col). (n, to_numeric parse (map replace_cell col))) (columns df)"
  let ?ms = "map (\<lambda>(n, col). (n, mean_of (present col))) ?c2"
  have c2: "columns df2 = ?c2"
    by (simp add: df2_def df_to_numeric_def df_replace_def comp_def case_prod_unfold)
  have "list_all (\<lambda>(n, col). \<not> list_ex is_str col) ?c2"
    by (simp add: list_all_iff case_prod_unfold to_numeric_no_str)
  then have m: "df_mean ?c2 = Inr ?ms"
    by (rule df_mean_no_str)
  have d: "distinct (map fst ?c2)"
    using assms by (simp add: names_def comp_def case_prod_unfold)
  have f: "map (\<lambda>(n, col). (n, case map_of ?ms n of
                                 None \<Rightarrow> col
                               | Some m \<Rightarrow> map (fill_cell m) col)) ?c2
        = map (\<lambda>(n, col). (n, map (fill_cell (mean_of (present col))) col)) ?c2"
    using d by (rule fill_own_means)
  have g: "map (\<lambda>(n, col). (n, map (fill_cell (mean_of (present col))) col)) ?c2
           = map (\<lambda>(n, col). (n, clean_column parse col)) (columns df)"
    by (simp add: clean_column_def Let_def comp_def case_prod_unfold)
  have "clean parse df = Inr (fillna ?ms df2)"
    using m c2 by (simp add: clean_def Let_def df2_def)
  also have "fillna ?ms df2 = df2\<lparr>columns := map (\<lambda>(n, col). (n, clean_column parse col)) (columns df)\<rparr>"
    unfolding fillna_def c2 f g ..
  also have "\<dots> = df\<lparr>columns := map (\<lambda>(n, col). (n, clean_column parse col)) (columns df)\<rparr>"
    by (simp add: df2_def df_to_numeric_def df_replace_def)
  finally show ?thesis .
qed

lemma length_clean_column: "length (clean_column parse col) = length col"
  by (simp add: clean_column_def Let_def length_to_numeric)

lemma fill_cell_no_str: "is_str (fill_cell m c) = is_str c"
  by (cases m; cases c) simp_all

lemma clean_column_no_str: "\<not> list_ex is_str (clean_column parse col)"
  using to_numeric_no_str[of parse "map replace_cell col"]
  by (simp add: clean_column_def Let_def list_ex_iff fill_cell_no_str)

lemma fill_cell_value:
  "cell_value c = Some v \<Longrightarrow> fill_cell m c = c"
  by (cases m; cases c) simp_all

lemma fill_cell_missing:
  "\<not> is_str c \<Longrightarrow> cell_value c = None \<Longrightarrow>
   fill_cell m c = (case m of None \<Rightarrow> NaN | Some x \<Rightarrow> FloatV x)"
  by (cases m; cases c) simp_all

lemma clean_column_nth:
  assumes "i < length col"
  shows "case cell_value (coerce parse (replace_cell (col ! i))) of
           Some v \<Rightarrow> cell_value (clean_column parse col ! i) = Some v
         | None \<Rightarrow> clean_column parse col ! i =
             (case mean_of (present (map (coerce parse \<circ> replace_cell) col)) of
                None \<Rightarrow> NaN | Some m \<Rightarrow> FloatV m)"
proof -
  let ?c2 = "to_numeric parse (map replace_cell col)"
  have v: "cell_value (?c2 ! i) = cell_value (coerce parse (replace_cell (col ! i)))"
    using assms by (simp add: to_numeric_nth_value)
  have p: "present ?c2 = present (map (coerce parse \<circ> replace_cell) col)"
    by (simp add: present_to_numeric)
  have ns: "\<not> is_str (?c2 ! i)"
    using to_numeric_no_str[of parse "map replace_cell col"] assms
    by (simp add: list_ex_iff length_to_numeric)
  have n: "clean_column parse col ! i = fill_cell (mean_of (present ?c2)) (?c2 ! i)"
    using assms by (simp add: clean_column_def Let_def length_to_numeric)
  show ?thesis
  proof (cases "cell_value (coerce parse (replace_cell (col ! i)))")
    case None
    with v ns n p show ?thesis by (simp add: fill_cell_missing)
  next
    case (Some x)
    with v n show ?thesis by (simp add: fill_cell_value)
  qed
qed

lemma replace_cell_sentinel: "replace_cell (StrV ''?'') = NaN \<and> replace_cell (StrV ''-9'') = NaN"
  by (simp add: sentinels_def)

lemma coerce_unparseable: "parse s = None \<Longrightarrow> coerce parse (StrV s) = NaN"
  by simp

text \<open>
  What cleaning does on string cells and on missing cells. For every frame with distinct
  labels, cleaning succeeds and keeps the labels and the shape. Cell by cell: a cell
  holding the string \<^verbatim>\<open>?\<close> or \<^verbatim>\<open>-9\<close> becomes the
  missing marker; coercion leaves no string, a string that does not parse becoming the
  missing marker; a cell with a value after coercion keeps that value; a cell missing after
  coercion becomes the mean of the values present in its own column of the same frame, and
  stays missing when the column has no value at all (the mean is then undefined).
\<close>

theorem clean_spec:
  assumes "distinct (names df)"
  shows "\<exists>cols'. clean parse df = Inr (df\<lparr>columns := cols'\<rparr>)
           \<and> map fst cols' = names df
           \<and> (\<forall>j < length (columns df). \<forall>i < length (snd (columns df ! j)).
                 let col = snd (columns df ! j); raw = col ! i; out = snd (cols' ! j) ! i;
                     tok = replace_cell raw; num = coerce parse tok
                 in length (snd (cols' ! j)) = length col
                    \<and> (raw = StrV ''?'' \<or> raw = StrV ''-9'' \<longrightarrow> tok = NaN)
                    \<and> \<not> is_str num
                    \<and> (\<forall>s. tok = StrV s \<and> parse s = None \<longrightarrow> num = NaN)
                    \<and> \<not> is_str out
                    \<and> (case cell_value num of
                          Some v \<Rightarrow> cell_value out = Some v
                        | None \<Rightarrow> out =
                            (case mean_of (present (map (coerce parse \<circ> replace_cell) col)) of
                               None \<Rightarrow> NaN | Some m \<Rightarrow> FloatV m)))"
proof -
  let ?cols = "map (\<lambda>(n, col). (n, clean_column parse col)) (columns df)"
  have 1: "clean parse df = Inr (df\<lparr>columns := ?cols\<rparr>)"
    using assms by (rule clean_columns)
  have 2: "map fst ?cols = names df"
    by (simp add: names_def comp_def case_prod_unfold)
  have 3: "let col = snd (columns df ! j); raw = col ! i; out = snd (?cols ! j) ! i;
                     tok = replace_cell raw; num = coerce parse tok
                 in length (snd (?cols ! j)) = length col
                    \<and> (raw = StrV ''?'' \<or> raw = StrV ''-9'' \<longrightarrow> tok = NaN)
                    \<and> \<not> is_str num
                    \<and> (\<forall>s. tok = StrV s \<and> parse s = None \<longrightarrow> num = NaN)
                    \<and> \<not> is_str out
                    \<and> (case cell_value num of
                          Some v \<Rightarrow> cell_value out = Some v
                        | None \<Rightarrow> out =
                            (case mean_of (present (map (coerce parse \<circ> replace_cell) col)) of
                               None \<Rightarrow> NaN | Some m \<Rightarrow> FloatV m))"
    if j: "j < length (columns df)" and i: "i < length (snd (columns df ! j))" for i j
  proof -
    let ?col = "snd (columns df ! j)"
    have c: "snd (?cols ! j) = clean_column parse ?col"
      using j by (simp add: case_prod_unfold)
    have a: "length (clean_column parse ?col) = length ?col"
      by (rule length_clean_column)
    have b: "\<not> is_str (clean_column parse ?col ! i)"
      using clean_column_no_str[of parse ?col] i a by (simp add: list_ex_iff)
    show ?thesis
      unfolding Let_def c
      using a b clean_column_nth[OF i, of parse] coerce_no_str[of parse]
      by (auto simp: sentinels_def)
  qed
  from 1 2 3 show ?thesis by blast
qed

theorem clean_spec_witness:
  "distinct (names raw_ex) \<and>
   clean parse_ex raw_ex = Inr (raw_ex\<lparr>columns :=
       [(''Age'', [FloatV 60, FloatV 50, FloatV 40, FloatV 50]),
        (''ca'', [NaN, NaN, NaN, NaN]),
        (''num'', [IntV 2, IntV 0, IntV 1, IntV 0])]\<rparr>)"
  using clean_spec[of raw_ex parse_ex]
  by (simp add: raw_ex_def names_def clean_def df_replace_def df_to_numeric_def
      to_numeric_def sentinels_def parse_ex_def series_mean_def mean_of_def present_def
      List.map_filter_simps fillna_def)

text \<open>
  Claim C7 against the code. Line 26 (and line 31) names the sentinels as the strings
  \<^verbatim>\<open>'?'\<close> and \<^verbatim>\<open>'-9'\<close>. In a column that \<^verbatim>\<open>pd.read_csv\<close> has read as numbers the
  sentinel \<^verbatim>\<open>-9\<close> is the number \<open>-9\<close>, which is not equal to a string: it is not replaced,
  it survives cleaning, and it enters the mean that fills the missing cells of its column.
  In the frame below the column \<^verbatim>\<open>ca\<close> (floats \<open>3\<close>, \<open>-9\<close> and a blank) is filled with
  \<open>-3\<close>, the mean of \<open>3\<close> and \<open>-9\<close>, and the integer column \<^verbatim>\<open>thal\<close> keeps its \<open>-9\<close>;
  only in the column \<^verbatim>\<open>chol\<close>, read as strings because of its \<^verbatim>\<open>?\<close>, is the sentinel
  replaced, the column then being filled with the mean of its one value.
\<close>

theorem clean_numeric_sentinel_failing_input:
  "clean parse_ex sentinel_ex = Inr (sentinel_ex\<lparr>columns :=
       [(''ca'', [FloatV 3, FloatV (- 9), FloatV (- 3)]),
        (''thal'', [IntV 3, IntV (- 9), IntV 6]),
        (''chol'', [FloatV 60, FloatV 60, FloatV 60])]\<rparr>)"
  by (simp add: sentinel_ex_def clean_def df_replace_def df_to_numeric_def
      to_numeric_def sentinels_def parse_ex_def series_mean_def mean_of_def present_def
      List.map_filter_simps fillna_def)

section \<open>Properties of the label binariser\<close>

lemma binarize_value_label: "\<not> is_str c \<Longrightarrow> binarize_value c = Inr (label_of c)"
  by (cases c) (simp_all add: label_of_def gt_zero_def)

lemma series_apply_binarize:
  "\<not> list_ex is_str col \<Longrightarrow> series_apply binarize_value col = Inr (map label_of col)"
  by (induction col) (simp_all add: binarize_value_label)

lemma filter_label_distinct:
  "distinct (map fst cs) \<Longrightarrow> k \<in> set (map fst cs) \<Longrightarrow>
   \<exists>col. filter (\<lambda>(n, c). n = k) cs = [(k, col)]"
proof (induction cs)
  case Nil
  then show ?case by simp
next
  case (Cons a cs)
  obtain n c where a: "a = (n, c)" by (cases a)
  show ?case
  proof (cases "n = k")
    case True
    with Cons.prems a have "k \<notin> fst ` set cs" by simp
    then have "filter (\<lambda>(n, c). n = k) cs = []"
      by (force simp: filter_empty_conv)
    with True a show ?thesis by simp
  next
    case False
    with Cons a show ?thesis by auto
  qed
qed

lemma filter_label_map:
  "filter (\<lambda>(n, c). n = k) (map (\<lambda>(n, col). (n, if n = k then v else col)) cs)
   = map (\<lambda>(n, c). (n, v)) (filter (\<lambda>(n, c). n = k) cs)"
  by (induction cs) auto

lemma num_column_setitem:
  assumes "distinct (names df)" "''num'' \<in> set (names df)"
  shows "num_column (setitem ''num'' v df) = v"
proof -
  from filter_label_distinct[of "columns df" "''num''"] assms
  obtain col where "filter (\<lambda>(n, c). n = ''num'') (columns df) = [(''num'', col)]"
    by (auto simp: names_def)
  then show ?thesis using assms(2)
    by (simp add: num_column_def setitem_def filter_label_map)
qed

lemma names_setitem: "k \<in> set (names df) \<Longrightarrow> names (setitem k v df) = names df"
  by (simp add: setitem_def names_def comp_def case_prod_unfold)

lemma binarize_num_ok:
  assumes "distinct (names df)" "''num'' \<in> set (names df)" "\<not> list_ex is_str (num_column df)"
  shows "binarize_num df = Inr (setitem ''num'' (map label_of (num_column df)) df)"
proof -
  from filter_label_distinct[of "columns df" "''num''"] assms
  obtain col where f: "filter (\<lambda>(n, c). n = ''num'') (columns df) = [(''num'', col)]"
    by (auto simp: names_def)
  then have nc: "num_column df = col" by (simp add: num_column_def)
  with assms(3) have "series_apply binarize_value col = Inr (map label_of col)"
    by (simp add: series_apply_binarize)
  with f nc show ?thesis by (simp add: binarize_num_def)
qed

text \<open>
  Claim C6. The label binariser replaces each value \<open>v\<close> of the outcome column \<^verbatim>\<open>num\<close> by
  \<open>1\<close> if \<open>v > 0\<close> and by \<open>0\<close> otherwise, on one frame at a time (the function takes a single
  frame, so the labels of one source do not depend on the other), and afterwards every
  value of the column is \<open>0\<close> or \<open>1\<close>. The frame is one whose labels are distinct, that has
  the column and whose outcome cells are numbers or missing, as cleaning leaves them.
\<close>

theorem binarize_num_labels:
  assumes "distinct (names df)" and "''num'' \<in> set (names df)"
    and "\<not> list_ex is_str (num_column df)"
  shows "\<exists>df'. binarize_num df = Inr df' \<and> names df' = names df
          \<and> num_column df' = map (\<lambda>c. IntV (if gt_zero c then 1 else 0)) (num_column df)
          \<and> set (num_column df') \<subseteq> {IntV 0, IntV 1}"
proof -
  let ?df' = "setitem ''num'' (map label_of (num_column df)) df"
  have 1: "binarize_num df = Inr ?df'" using assms by (rule binarize_num_ok)
  have 2: "names ?df' = names df" using assms(2) by (rule names_setitem)
  have 3: "num_column ?df' = map label_of (num_column df)"
    using assms(1,2) by (rule num_column_setitem)
  have 4: "set (map label_of (num_column df)) \<subseteq> {IntV 0, IntV 1}"
    by (auto simp: label_of_def split: if_splits)
  from 1 2 3 4 show ?thesis by (simp add: label_of_def[abs_def])
qed

theorem binarize_num_labels_witness:
  "distinct (names uci_ex) \<and> ''num'' \<in> set (names uci_ex) \<and> \<not> list_ex is_str (num_column uci_ex)
   \<and> binarize_num uci_ex = Inr (uci_ex\<lparr>columns := [(''Age'', [IntV 63, IntV 41, FloatV 50, NaN]),
                         (''num'', [IntV 1, IntV 0, IntV 0, IntV 0])]\<rparr>)"
  using binarize_num_labels[of uci_ex]
  by (simp add: uci_ex_def names_def num_column_def binarize_num_def setitem_def)

lemma label_of_not_nan: "\<not> is_nan (label_of c)"
  by (simp add: label_of_def)

text \<open>
  Claim C9. The label binariser is total on missing data: the lambda maps the missing marker
  to \<open>0\<close> (\<^verbatim>\<open>nan > 0\<close> is false), and on a frame whose outcome column holds numbers and
  missing markers the binariser returns a frame whose outcome column has as many cells,
  holds \<open>0\<close> wherever the marker stood, no missing marker, and only \<open>0\<close> and \<open>1\<close>.
\<close>

theorem binarize_num_missing:
  assumes "distinct (names df)" and "''num'' \<in> set (names df)"
    and "\<not> list_ex is_str (num_column df)"
  shows "binarize_value NaN = Inr (IntV 0)
         \<and> (\<exists>df'. binarize_num df = Inr df'
               \<and> length (num_column df') = length (num_column df)
               \<and> (\<forall>i < length (num_column df).
                     num_column df ! i = NaN \<longrightarrow> num_column df' ! i = IntV 0)
               \<and> \<not> list_ex is_nan (num_column df')
               \<and> set (num_column df') \<subseteq> {IntV 0, IntV 1})"
proof -
  let ?df' = "setitem ''num'' (map label_of (num_column df)) df"
  have 1: "binarize_num df = Inr ?df'" using assms by (rule binarize_num_ok)
  have 2: "num_column ?df' = map label_of (num_column df)"
    using assms(1,2) by (rule num_column_setitem)
  have 3: "label_of NaN = IntV 0" by (simp add: label_of_def gt_zero_def)
  have 4: "\<not> list_ex is_nan (map label_of (num_column df))"
    by (simp add: list_ex_iff label_of_not_nan)
  have 5: "set (map label_of (num_column df)) \<subseteq> {IntV 0, IntV 1}"
    by (auto simp: label_of_def split: if_splits)
  have 6: "\<forall>i < length (num_column df).
             num_column df ! i = NaN \<longrightarrow> map label_of (num_column df) ! i = IntV 0"
    using 3 by simp
  from 1 2 4 5 6 show ?thesis by simp
qed

theorem binarize_num_missing_witness:
  "distinct (names nan_ex) \<and> ''num'' \<in> set (names nan_ex) \<and> \<not> list_ex is_str (num_column nan_ex)
   \<and> binarize_num nan_ex = Inr (nan_ex\<lparr>columns := [(''Age'', [FloatV 60, FloatV 50, FloatV 40]),
                                    (''num'', [IntV 0, IntV 1, IntV 0])]\<rparr>)"
  using binarize_num_missing[of nan_ex]
  by (simp add: nan_ex_def names_def num_column_def binarize_num_def setitem_def)

section \<open>Properties of concatenation\<close>

text \<open>
  Claim C3 as stated fails: two frames whose schemas differ (\<^verbatim>\<open>Age\<close> is a column of the
  first only, \<^verbatim>\<open>chol\<close> of the second only) are concatenated without any error, the gaps
  filled with the missing marker.
\<close>

theorem concat_df_mismatch_counterexample:
  "''Age'' \<in> set (names uci_c3) \<and> ''Age'' \<notin> set (names india_c3)
   \<and> concat_df uci_c3 india_c3 =
       Inr \<lparr>nrows = 2, columns = [(''Age'', [FloatV 63, NaN]),
                                  (''num'', [IntV 1, IntV 0]),
                                  (''chol'', [NaN, FloatV 200])]\<rparr>"
  by (simp add: uci_c3_def india_c3_def names_def concat_df_def union_labels_def
      column_or_nan_def upcast_def)

lemma map_of_nth_distinct:
  "distinct (map fst xs) \<Longrightarrow> i < length xs \<Longrightarrow> map_of xs (fst (xs ! i)) = Some (snd (xs ! i))"
  by (metis map_of_eq_Some_iff nth_mem prod.collapse)

lemma zip_columns_outer:
  assumes "map fst xs = map fst ys" and "distinct (map fst xs)"
  shows "map (\<lambda>((n, ca), (m, cb)). (n, f ca cb)) (zip xs ys)
         = map (\<lambda>n. (n, f (case map_of xs n of None \<Rightarrow> da | Some c \<Rightarrow> c)
                           (case map_of ys n of None \<Rightarrow> db | Some c \<Rightarrow> c))) (map fst xs)"
proof (rule nth_equalityI)
  have len: "length xs = length ys" using assms(1) by (metis length_map)
  then show "length (map (\<lambda>((n, ca), (m, cb)). (n, f ca cb)) (zip xs ys))
    = length (map (\<lambda>n. (n, f (case map_of xs n of None \<Rightarrow> da | Some c \<Rightarrow> c)
                           (case map_of ys n of None \<Rightarrow> db | Some c \<Rightarrow> c))) (map fst xs))"
    by simp
  fix i assume "i < length (map (\<lambda>((n, ca), (m, cb)). (n, f ca cb)) (zip xs ys))"
  with len have i: "i < length xs" "i < length ys" by simp_all
  have fy: "fst (ys ! i) = fst (xs ! i)"
    using assms(1) i by (metis nth_map)
  have mx: "map_of xs (fst (xs ! i)) = Some (snd (xs ! i))"
    using assms(2) i(1) by (rule map_of_nth_distinct)
  have my: "map_of ys (fst (xs ! i)) = Some (snd (ys ! i))"
    using map_of_nth_distinct[of ys i] assms i(2) fy by simp
  show "map (\<lambda>((n, ca), (m, cb)). (n, f ca cb)) (zip xs ys) ! i
        = map (\<lambda>n. (n, f (case map_of xs n of None \<Rightarrow> da | Some c \<Rightarrow> c)
                           (case map_of ys n of None \<Rightarrow> db | Some c \<Rightarrow> c))) (map fst xs) ! i"
    using i mx my by (simp add: case_prod_unfold)
qed

lemma union_labels_same: "names a = names b \<Longrightarrow> union_labels a b = names a"
  by (simp add: union_labels_def)

lemma concat_df_columns:
  assumes "distinct (names a)" and "distinct (names b)"
  shows "concat_df a b =
           Inr \<lparr>nrows = nrows a + nrows b,
                columns = map (\<lambda>n. (n, upcast (column_or_nan a n @ column_or_nan b n)))
                              (union_labels a b)\<rparr>"
proof (cases "names a = names b")
  case True
  then have "map fst (columns a) = map fst (columns b)" by (simp add: names_def)
  moreover have "distinct (map fst (columns a))" using assms(1) by (simp add: names_def)
  ultimately have "map (\<lambda>((n, ca), (m, cb)). (n, upcast (ca @ cb))) (zip (columns a) (columns b))
     = map (\<lambda>n. (n, upcast ((case map_of (columns a) n of None \<Rightarrow> replicate (nrows a) NaN | Some c \<Rightarrow> c)
                          @ (case map_of (columns b) n of None \<Rightarrow> replicate (nrows b) NaN | Some c \<Rightarrow> c))))
           (map fst (columns a))"
    by (rule zip_columns_outer)
  with True show ?thesis
    by (simp add: concat_df_def union_labels_same column_or_nan_def names_def)
next
  case False
  with assms show ?thesis by (simp add: concat_df_def)
qed

lemma map_of_label_fun: "n \<in> set ns \<Longrightarrow> map_of (map (\<lambda>n. (n, f n)) ns) n = Some (f n)"
  by (induction ns) auto

text \<open>
  Claim C3, amended. Row-wise concatenation makes no schema check: for two frames with
  duplicate-free labels it always succeeds. The combined frame has the rows of both, the
  labels of the first frame followed by those only the second has, and under each label
  the first frame's column followed by the second's, a frame that lacks the label
  contributing the missing marker for each of its rows. When the two label sets are equal
  the combined frame has exactly that label set.
\<close>

theorem concat_df_outer:
  assumes "distinct (names a)" and "distinct (names b)"
  shows "\<exists>d. concat_df a b = Inr d
           \<and> nrows d = nrows a + nrows b
           \<and> names d = union_labels a b
           \<and> (set (names a) = set (names b) \<longrightarrow> set (names d) = set (names a))
           \<and> (\<forall>n \<in> set (names d).
                 map_of (columns d) n = Some (upcast (column_or_nan a n @ column_or_nan b n)))
           \<and> (\<forall>n \<in> set (names d) - set (names a). column_or_nan a n = replicate (nrows a) NaN)
           \<and> (\<forall>n \<in> set (names d) - set (names b). column_or_nan b n = replicate (nrows b) NaN)"
proof -
  let ?d = "\<lparr>nrows = nrows a + nrows b,
             columns = map (\<lambda>n. (n, upcast (column_or_nan a n @ column_or_nan b n)))
                           (union_labels a b)\<rparr>"
  have 1: "concat_df a b = Inr ?d" using assms by (rule concat_df_columns)
  have 2: "names ?d = union_labels a b" by (simp add: names_def comp_def)
  have 3: "set (names a) = set (names b) \<longrightarrow> set (union_labels a b) = set (names a)"
    by (auto simp: union_labels_def)
  have 4: "\<forall>n \<in> set (union_labels a b).
             map_of (columns ?d) n = Some (upcast (column_or_nan a n @ column_or_nan b n))"
    by (simp add: map_of_label_fun)
  have 5: "column_or_nan df n = replicate (nrows df) NaN" if "n \<notin> set (names df)" for df n
  proof -
    from that have "map_of (columns df) n = None"
      by (simp add: names_def map_of_eq_None_iff)
    then show ?thesis by (simp add: column_or_nan_def)
  qed
  from 1 2 3 4 5 show ?thesis by (metis (no_types, lifting) DiffD2 DataFrame.select_convs(1))
qed

theorem concat_df_outer_witness:
  "distinct (names uci_c3) \<and> distinct (names india_c3)
   \<and> concat_df uci_c3 india_c3 =
       Inr \<lparr>nrows = 2, columns = [(''Age'', [FloatV 63, NaN]),
                                  (''num'', [IntV 1, IntV 0]),
                                  (''chol'', [NaN, FloatV 200])]\<rparr>
   \<and> concat_df uci_c3 uci_c3 =
       Inr \<lparr>nrows = 2, columns = [(''Age'', [IntV 63, IntV 63]), (''num'', [IntV 1, IntV 1])]\<rparr>"
  using concat_df_outer[of uci_c3 india_c3]
  by (simp add: uci_c3_def india_c3_def names_def concat_df_def union_labels_def
      column_or_nan_def upcast_def)

section \<open>Properties of harmonisation\<close>

lemma names_clean:
  "distinct (names df) \<Longrightarrow> clean parse df = Inr df' \<Longrightarrow> names df' = names df \<and> nrows df' = nrows df"
  by (simp add: clean_columns names_def comp_def case_prod_unfold) auto

lemma dtype_clean_column: "dtype_of (clean_column parse col) \<noteq> Object"
  by (simp add: dtype_of_def clean_column_no_str)

lemma dtypes_clean:
  assumes "distinct (names df)" and "clean parse df = Inr df'"
  shows "list_all (\<lambda>(n, t). t \<noteq> Object) (dtypes df')"
proof -
  from assms have "columns df' = map (\<lambda>(n, col). (n, clean_column parse col)) (columns df)"
    by (auto simp: clean_columns)
  then show ?thesis
    by (simp add: dtypes_def list_all_iff case_prod_unfold dtype_clean_column)
qed

lemma names_drop_patientid: "names (drop_patientid df) = filter (\<lambda>n. n \<noteq> ''patientid'') (names df)"
proof (cases "''patientid'' \<in> set (names df)")
  case True
  then show ?thesis
    by (simp add: drop_patientid_def names_def filter_map comp_def case_prod_unfold)
next
  case False
  then have "filter (\<lambda>n. n \<noteq> ''patientid'') (names df) = names df"
    by (auto simp: filter_id_conv)
  with False show ?thesis by (simp add: drop_patientid_def)
qed

lemma names_rename: "names (rename m df) = map (rename_label m) (names df)"
  by (simp add: rename_def names_def comp_def case_prod_unfold)

lemma dtypes_rename: "map snd (dtypes (rename m df)) = map snd (dtypes df)"
  by (simp add: rename_def dtypes_def comp_def case_prod_unfold)

lemma dtypes_drop_patientid:
  "list_all (\<lambda>(n, t). t \<noteq> Object) (dtypes df) \<Longrightarrow>
   list_all (\<lambda>(n, t). t \<noteq> Object) (dtypes (drop_patientid df))"
  by (auto simp: drop_patientid_def dtypes_def list_all_iff)

lemma rename_source_names: "map (rename_label feature_mapping) source_names = canonical_names"
  by (simp add: source_names_def canonical_names_def feature_mapping_def rename_label_def)

lemma distinct_canonical_names: "distinct canonical_names"
  by (simp add: canonical_names_def feature_mapping_def)

lemma inj_on_rename_label: "inj_on (rename_label feature_mapping) (set source_names)"
proof -
  have "distinct (map (rename_label feature_mapping) source_names)"
    by (simp only: rename_source_names distinct_canonical_names)
  then show ?thesis by (simp add: distinct_map)
qed

lemma no_object_snd:
  "list_all (\<lambda>(n, t). t \<noteq> Object) xs = list_all (\<lambda>t. t \<noteq> Object) (map snd xs)"
  by (simp add: list_all_iff case_prod_unfold)

text \<open>
  Claim C4, amended. For every valid pair of input frames, harmonisation succeeds on both,
  the two harmonised frames have the same set of column labels (the canonical one), each
  without a repeated label, and every column of either has a numeric dtype, \<^verbatim>\<open>int64\<close>
  or \<^verbatim>\<open>float64\<close>. The dtype of a column is not claimed to be the same in the two frames.
\<close>

theorem harmonize_schema:
  assumes "valid_uci uci_df" and "valid_india india_df"
  shows "\<exists>u i. harmonize_uci parse uci_df = Inr u \<and> harmonize_india parse india_df = Inr i
           \<and> set (names u) = set (names i)
           \<and> set (names u) = set canonical_names
           \<and> distinct (names u) \<and> distinct (names i)
           \<and> list_all (\<lambda>(n, t). t = Int64 \<or> t = Float64) (dtypes u)
           \<and> list_all (\<lambda>(n, t). t = Int64 \<or> t = Float64) (dtypes i)"
proof -
  from assms have du: "distinct (names uci_df)" and su: "set (names uci_df) = set canonical_names"
    and di: "distinct (names india_df)"
    and si: "set (filter (\<lambda>n. n \<noteq> ''patientid'') (names india_df)) = set source_names"
    by (simp_all only: valid_uci_def valid_india_def wf_df_def)
  obtain u where u: "clean parse uci_df = Inr u"
    using du by (simp add: clean_columns)
  obtain c where c: "clean parse india_df = Inr c"
    using di by (simp add: clean_columns)
  let ?i = "rename feature_mapping (drop_patientid c)"
  have hu: "harmonize_uci parse uci_df = Inr u" using u by (simp add: harmonize_uci_def)
  have hi: "harmonize_india parse india_df = Inr ?i" using c by (simp add: harmonize_india_def)
  have nu: "names u = names uci_df" using du u by (simp add: names_clean)
  have nc: "names c = names india_df" using di c by (simp add: names_clean)
  let ?kept = "filter (\<lambda>n. n \<noteq> ''patientid'') (names india_df)"
  have ni: "names ?i = map (rename_label feature_mapping) ?kept"
    by (simp add: names_rename names_drop_patientid nc)
  have sk: "set ?kept = set source_names" using si .
  have "set (names ?i) = rename_label feature_mapping ` set source_names"
    by (simp add: ni sk del: set_filter)
  also have "\<dots> = set (map (rename_label feature_mapping) source_names)" by simp
  also have "\<dots> = set canonical_names" by (simp only: rename_source_names)
  finally have sni: "set (names ?i) = set canonical_names" .
  have "distinct ?kept" using di by simp
  moreover have "inj_on (rename_label feature_mapping) (set ?kept)"
    using inj_on_rename_label by (simp only: sk)
  ultimately have dni: "distinct (names ?i)" by (simp only: ni distinct_map simp_thms)
  have tu: "list_all (\<lambda>(n, t). t \<noteq> Object) (dtypes u)" using du u by (rule dtypes_clean)
  have "list_all (\<lambda>(n, t). t \<noteq> Object) (dtypes (drop_patientid c))"
    using di c by (intro dtypes_drop_patientid dtypes_clean)
  then have ti: "list_all (\<lambda>(n, t). t \<noteq> Object) (dtypes ?i)"
    by (simp only: no_object_snd dtypes_rename)
  have num: "(t \<noteq> Object) = (t = Int64 \<or> t = Float64)" for t by (cases t) simp_all
  from hu hi nu su sni du dni tu ti show ?thesis by (simp add: num)
qed

text \<open>
  Claim C4 as stated fails on the dtypes: in a valid pair where the first frame has a
  \<^verbatim>\<open>?\<close> in column \<^verbatim>\<open>ca\<close> and the second frame's \<^verbatim>\<open>noofmajorvessels\<close> holds integers
  only, the harmonised column \<^verbatim>\<open>ca\<close> is \<^verbatim>\<open>float64\<close> in the first frame and \<^verbatim>\<open>int64\<close>
  in the second.
\<close>

theorem harmonize_dtypes_counterexample:
  "valid_uci uci_c4 \<and> valid_india india_c4
   \<and> harmonize_uci parse_ex uci_c4 = Inr uci_c4_h
   \<and> harmonize_india parse_ex india_c4 = Inr india_c4_h
   \<and> map_of (dtypes uci_c4_h) ''ca'' = Some Float64
   \<and> map_of (dtypes india_c4_h) ''ca'' = Some Int64"
  by (simp add: valid_uci_def valid_india_def wf_df_def names_def uci_c4_def india_c4_def
      uci_c4_h_def india_c4_h_def canonical_names_def source_names_def feature_mapping_def
      harmonize_uci_def harmonize_india_def clean_def df_replace_def df_to_numeric_def
      to_numeric_def sentinels_def parse_ex_def series_mean_def mean_of_def present_def
      List.map_filter_simps fillna_def drop_patientid_def rename_def rename_label_def
      dtypes_def dtype_of_def insert_commute)

theorem harmonize_schema_witness:
  "valid_uci uci_c4 \<and> valid_india india_c4
   \<and> harmonize_uci parse_ex uci_c4 = Inr uci_c4_h
   \<and> harmonize_india parse_ex india_c4 = Inr india_c4_h
   \<and> names uci_c4_h = names india_c4_h
   \<and> map snd (dtypes india_c4_h) = replicate 13 Int64"
  using harmonize_schema[of uci_c4 india_c4 parse_ex]
  by (simp add: valid_uci_def valid_india_def wf_df_def names_def uci_c4_def india_c4_def
      uci_c4_h_def india_c4_h_def canonical_names_def source_names_def feature_mapping_def
      harmonize_uci_def harmonize_india_def clean_def df_replace_def df_to_numeric_def
      to_numeric_def sentinels_def parse_ex_def series_mean_def mean_of_def present_def
      List.map_filter_simps fillna_def drop_patientid_def rename_def rename_label_def
      dtypes_def dtype_of_def insert_commute eval_nat_numeral)

section \<open>Properties of the normaliser\<close>

text \<open>
  Claim C5 as stated fails: a matrix whose first column is constant is standardised
  without any error; the scale of that column is \<open>1\<close> and its entries become \<open>0\<close>.
\<close>

theorem fit_transform_constant_counterexample:
  "fit_transform X_c5 =
     Inr (\<lparr>mean_attr = [Some 5, Some 2], var_attr = [Some 0, Some 1], scale_attr = [Some 1, Some 1]\<rparr>,
          [[Some 0, Some (- 1)], [Some 0, Some 1]])"
  by (simp add: X_c5_def fit_transform_def fit_def transform_def transform_row_def
      transform_entry_def n_features_def column_of_def entries_present_def
      List.map_filter_simps mean_of_def variance_of_def scale_of_def upt_rec[of 0]
      power2_eq_square)

lemma entries_present_replicate: "entries_present (replicate n (Some c)) = replicate n c"
  by (induction n) (simp_all add: entries_present_def List.map_filter_simps)

lemma mean_of_replicate: "0 < n \<Longrightarrow> mean_of (replicate n c) = Some c"
  by (simp add: mean_of_def sum_list_replicate)

lemma variance_of_replicate: "0 < n \<Longrightarrow> variance_of (replicate n c) = Some 0"
  by (simp add: variance_of_def mean_of_replicate sum_list_replicate)

lemma column_of_constant:
  "\<forall>row \<in> set X. row ! j = Some c \<Longrightarrow> column_of X j = replicate (length X) (Some c)"
  by (simp add: column_of_def map_replicate_const[symmetric] cong: map_cong)

lemma fit_transform_ok:
  assumes "X \<noteq> []" and "0 < n_features X"
  shows "\<exists>s. fit X = Inr s \<and> fit_transform X = Inr (s, map (transform_row s) X)
             \<and> length (mean_attr s) = n_features X"
  using assms by (simp add: fit_transform_def fit_def transform_def Let_def)

lemma fit_attr_nth:
  assumes "fit X = Inr s" and "j < n_features X"
  shows "mean_attr s ! j = mean_of (entries_present (column_of X j))"
    and "var_attr s ! j = variance_of (entries_present (column_of X j))"
    and "scale_attr s ! j = scale_of (variance_of (entries_present (column_of X j)))"
  using assms by (auto simp: fit_def Let_def split: if_splits)

text \<open>
  Claim C5, amended. The normaliser does not fail on a zero-variance column: for every
  non-empty rectangular matrix and every column all of whose entries are the same number,
  \<^verbatim>\<open>fit_transform\<close> succeeds, the fitted variance of the column is \<open>0\<close>, its scale is set
  to \<open>1\<close> instead of the zero standard deviation, and every transformed entry of the
  column is \<open>0\<close>.
\<close>

theorem fit_transform_constant_column:
  assumes "X \<noteq> []" and "rect X" and "j < n_features X"
    and "\<forall>row \<in> set X. row ! j = Some c"
  shows "\<exists>s Y. fit_transform X = Inr (s, Y)
           \<and> mean_attr s ! j = Some c \<and> var_attr s ! j = Some 0 \<and> scale_attr s ! j = Some 1
           \<and> length Y = length X \<and> (\<forall>i < length X. Y ! i ! j = Some 0)"
proof -
  from assms(1,3) obtain s where s: "fit X = Inr s"
    and ft: "fit_transform X = Inr (s, map (transform_row s) X)"
    using fit_transform_ok[of X] by auto
  have n: "0 < length X" using assms(1) by simp
  have "column_of X j = replicate (length X) (Some c)"
    using assms(4) by (rule column_of_constant)
  then have col: "entries_present (column_of X j) = replicate (length X) c"
    by (simp add: entries_present_replicate)
  have m: "mean_attr s ! j = Some c"
    using fit_attr_nth(1)[OF s assms(3)] n by (simp add: col mean_of_replicate)
  have v: "var_attr s ! j = Some 0"
    using fit_attr_nth(2)[OF s assms(3)] n by (simp add: col variance_of_replicate)
  have d: "scale_attr s ! j = Some 1"
    using fit_attr_nth(3)[OF s assms(3)] n by (simp add: col variance_of_replicate scale_of_def)
  have "map (transform_row s) X ! i ! j = Some 0" if i: "i < length X" for i
  proof -
    have mem: "X ! i \<in> set X" using i by simp
    with assms(2) have "length (X ! i) = n_features X" by (simp add: rect_def list_all_iff)
    with assms(3) have "transform_row s (X ! i) ! j = transform_entry s j (X ! i ! j)"
      by (simp add: transform_row_def)
    also have "\<dots> = Some 0" using assms(4) mem m d by (simp add: transform_entry_def)
    finally show ?thesis using i by simp
  qed
  with ft m v d show ?thesis by simp
qed

theorem fit_transform_constant_column_witness:
  "X_c5 \<noteq> [] \<and> rect X_c5 \<and> 0 < n_features X_c5 \<and> list_all (\<lambda>row. row ! 0 = Some 5) X_c5
   \<and> fit_transform X_c5 =
     Inr (\<lparr>mean_attr = [Some 5, Some 2], var_attr = [Some 0, Some 1], scale_attr = [Some 1, Some 1]\<rparr>,
          [[Some 0, Some (- 1)], [Some 0, Some 1]])"
  using fit_transform_constant_column[of X_c5 0 5]
  by (simp add: X_c5_def rect_def fit_transform_def fit_def transform_def transform_row_def
      transform_entry_def n_features_def column_of_def entries_present_def
      List.map_filter_simps mean_of_def variance_of_def scale_of_def upt_rec[of 0]
      power2_eq_square)

section \<open>Normalisation and the split\<close>

lemma take_rows_Inr:
  "take_rows idx xs = Inr ys \<Longrightarrow> ys = map (\<lambda>i. xs ! i) idx \<and> list_all (\<lambda>i. i < length xs) idx"
  by (induction idx arbitrary: ys) (auto split: if_splits sum.splits)

lemma fit_transform_Inr:
  "fit_transform X = Inr (s, Y) \<Longrightarrow> fit X = Inr s \<and> Y = map (transform_row s) X"
  by (auto simp: fit_transform_def transform_def split: sum.splits if_splits)

lemma train_test_split_Inr:
  assumes "train_test_split np global X y t rs = Inr parts"
  shows "\<exists>train test. split_indices np global t rs (length X) = Inr (train, test)
           \<and> list_all (\<lambda>i. i < length X) train \<and> list_all (\<lambda>i. i < length X) test
           \<and> X_train parts = map (\<lambda>i. X ! i) train \<and> X_test parts = map (\<lambda>i. X ! i) test
           \<and> y_train parts = map (\<lambda>i. y ! i) train \<and> y_test parts = map (\<lambda>i. y ! i) test"
  using assms
  by (auto simp: train_test_split_def split: sum.splits if_splits dest!: take_rows_Inr)

text \<open>
  Claim C1, amended. The scaling parameters are fit once, on all rows of the sampled
  feature matrix, before it is split: whenever lines 74-78 succeed, the scaler is the one
  \<^verbatim>\<open>fit\<close> computes from the whole matrix, and both the training rows and the test rows are
  rows of the whole matrix transformed with these same parameters. No statistics are
  recomputed for the test partition, but the parameters depend on the test rows too.
\<close>

theorem scaler_fit_before_split:
  assumes "normalize_and_split np global X y = Inr (s, parts)"
  shows "fit X = Inr s
         \<and> (\<exists>train test. split_indices np global (2 / 10) (Seed 42) (length X) = Inr (train, test)
               \<and> X_train parts = map (\<lambda>i. transform_row s (X ! i)) train
               \<and> X_test parts = map (\<lambda>i. transform_row s (X ! i)) test)"
proof -
  from assms obtain Y where ft: "fit_transform X = Inr (s, Y)"
    and sp: "train_test_split np global Y y (2 / 10) (Seed 42) = Inr parts"
    by (auto simp: normalize_and_split_def split: sum.splits)
  from ft have s: "fit X = Inr s" and Y: "Y = map (transform_row s) X"
    by (simp_all add: fit_transform_Inr)
  from train_test_split_Inr[OF sp] obtain train test where
    idx: "split_indices np global (2 / 10) (Seed 42) (length Y) = Inr (train, test)"
    and tr: "list_all (\<lambda>i. i < length Y) train" and te: "list_all (\<lambda>i. i < length Y) test"
    and Xtr: "X_train parts = map (\<lambda>i. Y ! i) train"
    and Xte: "X_test parts = map (\<lambda>i. Y ! i) test"
    by blast
  have "map (\<lambda>i. Y ! i) train = map (\<lambda>i. transform_row s (X ! i)) train"
    using tr by (simp add: Y list_all_iff)
  moreover have "map (\<lambda>i. Y ! i) test = map (\<lambda>i. transform_row s (X ! i)) test"
    using te by (simp add: Y list_all_iff)
  ultimately show ?thesis using s idx Xtr Xte by (simp add: Y)
qed

lemma split_indices_ex:
  "split_indices np_ex g (1 / 5) (Seed 42) (Suc (Suc (Suc (Suc (Suc 0)))))
   = Inr ([Suc 0, 2, 3, 4], [0])"
  by (simp add: split_indices_def np_ex_def check_random_state_def)

text \<open>
  Claim C1 as stated fails: two sampled matrices with the same split and the same training
  rows, differing in the test row only, are transformed with different means (\<open>4\<close> and
  \<open>6\<close>): the statistics are not a function of the training rows only.
\<close>

theorem scaler_train_only_counterexample:
  "split_indices np_ex True (2 / 10) (Seed 42) (length X_c1) = Inr ([1, 2, 3, 4], [0])
   \<and> length X_c1' = length X_c1
   \<and> map (\<lambda>i. X_c1 ! i) [1, 2, 3, 4] = map (\<lambda>i. X_c1' ! i) [1, 2, 3, 4]
   \<and> map_sum id (\<lambda>(s, parts). mean_attr s) (normalize_and_split np_ex True X_c1 y_c1) = Inr [Some 4]
   \<and> map_sum id (\<lambda>(s, parts). mean_attr s) (normalize_and_split np_ex True X_c1' y_c1) = Inr [Some 6]"
  by (simp add: split_indices_ex X_c1_def X_c1'_def y_c1_def normalize_and_split_def
      train_test_split_def fit_transform_def fit_def transform_def 
      n_features_def column_of_def entries_present_def
      List.map_filter_simps mean_of_def)

lemma split_indices_ex4:
  "split_indices np_ex g (1 / 5) (Seed 42) (Suc (Suc (Suc (Suc 0))))
   = Inr ([Suc 0, 2, 3], [0])"
  by (simp add: split_indices_def np_ex_def check_random_state_def)

theorem scaler_fit_before_split_witness:
  "normalize_and_split np_ex True X_w y_w =
     Inr (\<lparr>mean_attr = [Some 2], var_attr = [Some 1], scale_attr = [Some 1]\<rparr>,
          \<lparr>X_train = [[Some 1], [Some (- 1)], [Some 1]], X_test = [[Some (- 1)]],
           y_train = [IntV 1, IntV 0, IntV 1], y_test = [IntV 0]\<rparr>)
   \<and> fit X_w = Inr \<lparr>mean_attr = [Some 2], var_attr = [Some 1], scale_attr = [Some 1]\<rparr>
   \<and> split_indices np_ex True (2 / 10) (Seed 42) (length X_w) = Inr ([1, 2, 3], [0])"
proof -
  have h: "normalize_and_split np_ex True X_w y_w =
     Inr (\<lparr>mean_attr = [Some 2], var_attr = [Some 1], scale_attr = [Some 1]\<rparr>,
          \<lparr>X_train = [[Some 1], [Some (- 1)], [Some 1]], X_test = [[Some (- 1)]],
           y_train = [IntV 1, IntV 0, IntV 1], y_test = [IntV 0]\<rparr>)"
    by (simp add: split_indices_ex4 X_w_def y_w_def normalize_and_split_def
      train_test_split_def fit_transform_def fit_def transform_def transform_row_def
      transform_entry_def n_features_def column_of_def entries_present_def
      List.map_filter_simps mean_of_def variance_of_def scale_of_def power2_eq_square)
  from scaler_fit_before_split[OF h] h show ?thesis
    by (simp add: X_w_def split_indices_ex4)
qed

section \<open>Determinism of sampling and splitting\<close>

text \<open>
  Claim C8. Sampling and splitting pass the fixed seed \<open>42\<close>, so neither reads the global
  generator: whatever the states \<open>g1\<close> and \<open>g2\<close> of the global generator in two runs, the
  same combined frame yields the same sampled rows, and the same sample, scaler and
  train/test partition (or the same error).
\<close>

theorem prepare_deterministic:
  "sample np g1 (1 / 10) (Seed 42) combined = sample np g2 (1 / 10) (Seed 42) combined
   \<and> prepare np g1 combined = prepare np g2 combined"
proof -
  have rs: "check_random_state np g1 (Seed 42) = check_random_state np g2 (Seed 42)"
    by (simp add: check_random_state_def)
  have 1: "sample np g1 (1 / 10) (Seed 42) combined = sample np g2 (1 / 10) (Seed 42) combined"
    unfolding sample_def rs ..
  have 2: "split_indices np g1 t (Seed 42) n = split_indices np g2 t (Seed 42) n" for t n
    unfolding split_indices_def rs ..
  have 3: "train_test_split np g1 X y t (Seed 42) = train_test_split np g2 X y t (Seed 42)"
    for X and y :: "cell list" and t
    unfolding train_test_split_def 2 ..
  have 4: "normalize_and_split np g1 X y = normalize_and_split np g2 X y"
    for X and y :: "cell list"
    unfolding normalize_and_split_def 3 ..
  have "prepare np g1 combined = prepare np g2 combined"
    unfolding prepare_def 1 4 ..
  with 1 show ?thesis by simp
qed

text \<open>The seed matters: with \<^verbatim>\<open>random_state=None\<close> two generator states select different rows.\<close>

lemma py_round_ex: "py_round (1 / 10 * real 15) = 2"
  by (simp add: py_round_def)

lemma perm_seeded_ex: "take 2 (permutation np_ex (check_random_state np_ex g (Seed 42)) 15) = [0, 1]"
  by (simp add: np_ex_def check_random_state_def upt_conv_Cons)

lemma perm_unseeded_ex:
  "take 2 (permutation np_ex (check_random_state np_ex True NoSeed) 15) = [0, 1]"
  "take 2 (permutation np_ex (check_random_state np_ex False NoSeed) 15) = [14, 13]"
  by (simp_all add: np_ex_def check_random_state_def upt_conv_Cons take_rev)

lemma sample_ex:
  "sample np_ex g (1 / 10) (Seed 42) combined_ex
   = Inr \<lparr>nrows = 2, columns = [(''Age'', [IntV 50, IntV 51]), (''num'', [IntV 0, IntV 1])]\<rparr>"
proof -
  have n: "nrows combined_ex = 15" by (simp add: combined_ex_def)
  show ?thesis
    unfolding sample_def Let_def n py_round_ex
    by (simp only: nat_numeral perm_seeded_ex) (simp add: combined_ex_def)
qed

lemma sample_unseeded_ex:
  "sample np_ex True (1 / 10) NoSeed combined_ex
   = Inr \<lparr>nrows = 2, columns = [(''Age'', [IntV 50, IntV 51]), (''num'', [IntV 0, IntV 1])]\<rparr>"
  "sample np_ex False (1 / 10) NoSeed combined_ex
   = Inr \<lparr>nrows = 2, columns = [(''Age'', [IntV 64, IntV 63]), (''num'', [IntV 0, IntV 1])]\<rparr>"
proof -
  have n: "nrows combined_ex = 15" by (simp add: combined_ex_def)
  show "sample np_ex True (1 / 10) NoSeed combined_ex
   = Inr \<lparr>nrows = 2, columns = [(''Age'', [IntV 50, IntV 51]), (''num'', [IntV 0, IntV 1])]\<rparr>"
    unfolding sample_def Let_def n py_round_ex
    by (simp only: nat_numeral perm_unseeded_ex) (simp add: combined_ex_def)
  show "sample np_ex False (1 / 10) NoSeed combined_ex
   = Inr \<lparr>nrows = 2, columns = [(''Age'', [IntV 64, IntV 63]), (''num'', [IntV 0, IntV 1])]\<rparr>"
    unfolding sample_def Let_def n py_round_ex
    by (simp only: nat_numeral perm_unseeded_ex) (simp add: combined_ex_def)
qed

theorem prepare_deterministic_witness:
  "sample np_ex True (1 / 10) (Seed 42) combined_ex
     = Inr \<lparr>nrows = 2, columns = [(''Age'', [IntV 50, IntV 51]), (''num'', [IntV 0, IntV 1])]\<rparr>
   \<and> sample np_ex False (1 / 10) (Seed 42) combined_ex
     = Inr \<lparr>nrows = 2, columns = [(''Age'', [IntV 50, IntV 51]), (''num'', [IntV 0, IntV 1])]\<rparr>
   \<and> prepare np_ex True combined_ex = prepare np_ex False combined_ex"
  using prepare_deterministic[of np_ex True combined_ex False] sample_ex by simp

section \<open>The diversity statistic\<close>

text \<open>
  Claim C2 against the code. The script computes the Hamming distances between the rows
  of \<^verbatim>\<open>pred_matrix\<close>, that is between test instances, not between learners. Three
  learners that agree on every instance (\<open>0\<close> on the first, \<open>1\<close> on the second) get the
  score \<open>1/2\<close>, where the mean disagreement between learners is \<open>0\<close>; three learners of
  which one disagrees with the other two on every instance get the score \<open>0\<close>, where the
  mean disagreement between learners is \<open>2/3\<close>.
\<close>

theorem disagreements_failing_input:
  "disagreements [0, 1] [0, 1] [0, 1] = Inr (1 / 2)
   \<and> learner_disagreement [0, 1] [0, 1] [0, 1] = 0
   \<and> disagreements [0, 0] [1, 1] [1, 1] = Inr 0
   \<and> learner_disagreement [0, 0] [1, 1] [1, 1] = 2 / 3"
  by (simp add: disagreements_def vstack_T_def pairwise_distances_def hamming_def
      array_mean_def learner_disagreement_def upt_rec[of 0] upt_rec[of "Suc _"])

section \<open>The grid search and the base learners\<close>

lemma clone_base_append: "\<exists>x. clone_base s a = (s @ [x], length s)"
  by (simp add: clone_base_def split: estimator.splits)

lemma fit_base_append: "\<exists>y. fit_base L (s @ [x]) (length s) d = s @ [y]"
  by (simp add: fit_base_def split: estimator.splits)

lemma fit_base_prefix:
  "n \<le> a \<Longrightarrow> take n (fit_base L s a d) = take n s"
  by (simp add: fit_base_def split: estimator.splits)

lemma fit_clones_append: "\<exists>ext. fst (fit_clones L s as d) = s @ ext"
proof (induction as arbitrary: s)
  case Nil
  then show ?case by simp
next
  case (Cons a as)
  obtain x where x: "clone_base s a = (s @ [x], length s)"
    using clone_base_append[of s a] by blast
  obtain y where y: "fit_base L (s @ [x]) (length s) d = s @ [y]"
    using fit_base_append[of L s x d] by blast
  obtain ext where "fst (fit_clones L (s @ [y]) as d) = (s @ [y]) @ ext"
    using Cons.IH[of "s @ [y]"] by blast
  then show ?case
    by (simp add: x y case_prod_unfold)
qed

lemma fit_estimator_prefix:
  assumes "n \<le> a" and "n \<le> length s"
  shows "take n (fit_estimator L s a d) = take n s"
proof (cases "s ! a")
  case (Base c h m)
  then show ?thesis using assms(1) by (simp add: fit_estimator_def fit_base_prefix)
next
  case (Stacking es f k fitted)
  obtain ext where e: "fst (fit_clones L s (map snd es) d) = s @ ext"
    using fit_clones_append[of L s "map snd es" d] by blast
  let ?as = "snd (fit_clones L s (map snd es) d)"
  obtain x where x: "clone_base (s @ ext) f = ((s @ ext) @ [x], length (s @ ext))"
    using clone_base_append[of "s @ ext" f] by blast
  let ?d = "meta_data L (List.map_filter (\<lambda>b. model_of ((s @ ext) ! b)) ?as) d"
  obtain y where y: "fit_base L ((s @ ext) @ [x]) (length (s @ ext)) ?d = (s @ ext) @ [y]"
    using fit_base_append[of L "s @ ext" x ?d] by blast
  have "fit_estimator L s a d
        = ((s @ ext) @ [y])[a := Stacking es f k (Some (?as, length (s @ ext)))]"
    using Stacking x y e by (simp add: fit_estimator_def case_prod_unfold Let_def)
  then show ?thesis using assms by simp
qed

lemma intact_nth:
  assumes "take 5 s = (initial_store :: 'm store)"
  shows "s ! 0 = Base ''KNeighborsClassifier'' knn_params None"
    and "s ! Suc 0 = Base ''SVC'' svm_params None"
    and "s ! 2 = Base ''DecisionTreeClassifier'' dt_params None"
    and "s ! 3 = Base ''LogisticRegression'' meta_params None"
    and "s ! 4 = Stacking [(''knn'', knn), (''svm'', svm), (''dt'', dt)] meta_model 5 None"
    and "5 \<le> length s"
proof -
  have n: "s ! i = (initial_store :: 'm store) ! i" if "i < 5" for i
    using that assms by (metis nth_take)
  show "s ! 0 = Base ''KNeighborsClassifier'' knn_params None"
    using n[of 0] by (simp add: initial_store_def)
  show "s ! Suc 0 = Base ''SVC'' svm_params None"
    using n[of "Suc 0"] by (simp add: initial_store_def)
  show "s ! 2 = Base ''DecisionTreeClassifier'' dt_params None"
    using n[of 2] by (simp add: initial_store_def)
  show "s ! 3 = Base ''LogisticRegression'' meta_params None"
    using n[of 3] by (simp add: initial_store_def)
  show "s ! 4 = Stacking [(''knn'', knn), (''svm'', svm), (''dt'', dt)] meta_model 5 None"
    using n[of 4] by (simp add: initial_store_def)
  have "length (take 5 s) = 5" by (simp only: assms) (simp add: initial_store_def)
  then show "5 \<le> length s" by simp
qed

lemma clone_stacking_model:
  assumes "take 5 s = (initial_store :: 'm store)"
  shows "clone s stacking_model =
           (s @ [Base ''KNeighborsClassifier'' knn_params None,
                 Base ''SVC'' svm_params None,
                 Base ''DecisionTreeClassifier'' dt_params None,
                 Base ''LogisticRegression'' meta_params None,
                 Stacking [(''knn'', length s), (''svm'', length s + 1), (''dt'', length s + 2)]
                          (length s + 3) 5 None],
            length s + 4)"
  using intact_nth[OF assms]
  by (simp add: clone_def clone_base_def stacking_model_def knn_def svm_def dt_def
      meta_model_def nth_append)

lemma set_params_clone:
  "set_params
     (s @ [Base ''KNeighborsClassifier'' knn_params None,
           Base ''SVC'' svm_params None,
           Base ''DecisionTreeClassifier'' dt_params None,
           Base ''LogisticRegression'' meta_params None,
           Stacking [(''knn'', length s), (''svm'', length s + 1), (''dt'', length s + 2)]
                    (length s + 3) 5 None])
     (length s + 4) (candidate_of v1 v2 v3 v4 v5)
   = Inr (s @ [Base ''KNeighborsClassifier'' [(''n_neighbors'', v3)] None,
               Base ''SVC'' [(''C'', v4), (''kernel'', v5), (''probability'', PBool True),
                             (''random_state'', PInt 42)] None,
               Base ''DecisionTreeClassifier'' [(''max_depth'', v1), (''random_state'', PInt 42)] None,
               Base ''LogisticRegression'' [(''C'', v2)] None,
               Stacking [(''knn'', length s), (''svm'', length s + 1), (''dt'', length s + 2)]
                        (length s + 3) 5 None])"
  by (simp add: candidate_of_def set_param_def set_base_param_def update_param_def
      knn_params_def svm_params_def dt_params_def meta_params_def nth_append
      list_update_append)

lemma ParameterGrid_keys: "c \<in> set (ParameterGrid g) \<Longrightarrow> map fst c = map fst g"
  by (induction g arbitrary: c) auto

lemma candidate_shape:
  assumes "c \<in> set (ParameterGrid param_grid)"
  shows "\<exists>v1 v2 v3 v4 v5. c = candidate_of v1 v2 v3 v4 v5"
proof -
  have "map fst c = map fst param_grid" using assms by (rule ParameterGrid_keys)
  then show ?thesis
    by (auto simp: param_grid_def candidate_of_def map_eq_Cons_conv)
qed

lemma clone_set_fit_intact:
  assumes "take 5 s = (initial_store :: 'm store)"
  shows "\<exists>s2. set_params (fst (clone s stacking_model)) (snd (clone s stacking_model))
                  (candidate_of v1 v2 v3 v4 v5) = Inr s2
              \<and> take 5 (fit_estimator L s2 (snd (clone s stacking_model)) d) = initial_store"
proof -
  have len: "5 \<le> length s" using assms by (rule intact_nth(6))
  let ?s2 = "s @ [Base ''KNeighborsClassifier'' [(''n_neighbors'', v3)] None,
               Base ''SVC'' [(''C'', v4), (''kernel'', v5), (''probability'', PBool True),
                             (''random_state'', PInt 42)] None,
               Base ''DecisionTreeClassifier'' [(''max_depth'', v1), (''random_state'', PInt 42)] None,
               Base ''LogisticRegression'' [(''C'', v2)] None,
               Stacking [(''knn'', length s), (''svm'', length s + 1), (''dt'', length s + 2)]
                        (length s + 3) 5 None]"
  have sp: "set_params (fst (clone s stacking_model)) (snd (clone s stacking_model))
              (candidate_of v1 v2 v3 v4 v5) = Inr ?s2"
    by (simp only: clone_stacking_model[OF assms] fst_conv snd_conv set_params_clone)
  have "take 5 (fit_estimator L ?s2 (length s + 4) d) = take 5 ?s2"
    using len by (intro fit_estimator_prefix) simp_all
  also have "\<dots> = initial_store" using len assms by simp
  finally have "take 5 (fit_estimator L ?s2 (snd (clone s stacking_model)) d) = initial_store"
    by (simp only: clone_stacking_model[OF assms] snd_conv)
  with sp show ?thesis by blast
qed

lemma cv_fits_intact:
  assumes "take 5 s = (initial_store :: 'm store)"
  shows "\<exists>s' scores. cv_fits L s stacking_model (candidate_of v1 v2 v3 v4 v5) d ks = Inr (s', scores)
           \<and> take 5 s' = initial_store"
  using assms
proof (induction ks arbitrary: s)
  case Nil
  then show ?case by simp
next
  case (Cons k ks)
  from clone_set_fit_intact[OF Cons.prems, of v1 v2 v3 v4 v5 L "fold_train L k d"]
  obtain s2 where sp: "set_params (fst (clone s stacking_model)) (snd (clone s stacking_model))
                  (candidate_of v1 v2 v3 v4 v5) = Inr s2"
    and it: "take 5 (fit_estimator L s2 (snd (clone s stacking_model)) (fold_train L k d)) = initial_store"
    by blast
  from Cons.IH[OF it] obtain s' scores where
    "cv_fits L (fit_estimator L s2 (snd (clone s stacking_model)) (fold_train L k d))
        stacking_model (candidate_of v1 v2 v3 v4 v5) d ks = Inr (s', scores)"
    and "take 5 s' = initial_store" by blast
  with sp show ?case by (simp add: case_prod_unfold Let_def)
qed

lemma evaluate_candidates_intact:
  assumes "take 5 s = (initial_store :: 'm store)"
    and "set cands \<subseteq> set (ParameterGrid param_grid)"
  shows "\<exists>s' means. evaluate_candidates L s stacking_model d folds cands = Inr (s', means)
           \<and> take 5 s' = initial_store \<and> length means = length cands"
  using assms
proof (induction cands arbitrary: s)
  case Nil
  then show ?case by simp
next
  case (Cons c cands)
  from Cons.prems(2) have "c \<in> set (ParameterGrid param_grid)" by simp
  then obtain v1 v2 v3 v4 v5 where c: "c = candidate_of v1 v2 v3 v4 v5"
    using candidate_shape by blast
  from cv_fits_intact[OF Cons.prems(1), of L v1 v2 v3 v4 v5 d folds]
  obtain s1 scores where cv: "cv_fits L s stacking_model c d folds = Inr (s1, scores)"
    and i1: "take 5 s1 = initial_store" using c by blast
  from Cons.prems(2) have "set cands \<subseteq> set (ParameterGrid param_grid)" by simp
  from Cons.IH[OF i1 this] obtain s' means where
    "evaluate_candidates L s1 stacking_model d folds cands = Inr (s', means)"
    and "take 5 s' = initial_store" and "length means = length cands" by blast
  with cv show ?case by simp
qed

lemma best_index_less: "xs \<noteq> [] \<Longrightarrow> best_index xs < length xs"
proof (induction xs)
  case Nil
  then show ?case by simp
next
  case (Cons x xs)
  then show ?case by (cases xs) auto
qed

lemma ParameterGrid_param_grid_nonempty: "ParameterGrid param_grid \<noteq> []"
  by (simp add: param_grid_def)

lemma grid_search_fit_intact:
  "\<exists>s best_params best_estimator.
      grid_search_fit L initial_store stacking_model param_grid cv d
        = Inr (s, best_params, best_estimator)
      \<and> take 5 s = initial_store"
proof -
  let ?cands = "ParameterGrid param_grid"
  have i0: "take 5 (initial_store :: 'a store) = initial_store"
    by (simp add: initial_store_def)
  from evaluate_candidates_intact[OF i0, of ?cands L d "[0..<cv]"]
  obtain s1 means where ev: "evaluate_candidates L initial_store stacking_model d [0..<cv] ?cands
       = Inr (s1, means)" and i1: "take 5 s1 = initial_store"
    and len: "length means = length ?cands" by auto
  have "means \<noteq> []" using len ParameterGrid_param_grid_nonempty by auto
  then have "best_index means < length ?cands" using best_index_less len by metis
  then have "?cands ! best_index means \<in> set ?cands" by (rule nth_mem)
  then obtain v1 v2 v3 v4 v5 where b: "?cands ! best_index means = candidate_of v1 v2 v3 v4 v5"
    using candidate_shape by blast
  from clone_set_fit_intact[OF i1, of v1 v2 v3 v4 v5 L d]
  obtain s2 where sp: "set_params (fst (clone s1 stacking_model)) (snd (clone s1 stacking_model))
                  (candidate_of v1 v2 v3 v4 v5) = Inr s2"
    and it: "take 5 (fit_estimator L s2 (snd (clone s1 stacking_model)) d) = initial_store"
    by blast
  show ?thesis
    using ev b sp it by (simp add: grid_search_fit_def Let_def case_prod_unfold)
qed

lemma diversity_stage_intact:
  assumes "take 5 s = (initial_store :: 'm store)"
  shows "diversity_stage L s train test =
           disagreements
             (predict L (learn L ''KNeighborsClassifier'' knn_params train) test)
             (predict L (learn L ''SVC'' svm_params train) test)
             (predict L (learn L ''DecisionTreeClassifier'' dt_params train) test)"
proof -
  note n = intact_nth[OF assms]
  from n(6) have l: "0 < length s" "Suc 0 < length s" "2 < length s" by auto
  show ?thesis
    using n(1,2,3) l
    by (simp add: diversity_stage_def fit_estimator_def fit_base_def predict_estimator_def
        model_of_def knn_def svm_def dt_def Let_def)
qed

text \<open>Without the clone the objects would be shared: setting a parameter through
  \<^verbatim>\<open>stacking_model\<close> itself changes the object \<^verbatim>\<open>knn\<close>.\<close>

lemma set_params_shared:
  "set_params (initial_store :: 'm store) stacking_model [((''knn'', ''n_neighbors''), PInt 3)]
   = Inr ((initial_store :: 'm store)[knn := Base ''KNeighborsClassifier'' [(''n_neighbors'', PInt 3)] None])"
  by (simp add: initial_store_def stacking_model_def knn_def svm_def dt_def meta_model_def
      set_param_def set_base_param_def update_param_def knn_params_def)

text \<open>
  Claim C10. The grid search of line 112 succeeds on the objects the script constructs and
  leaves the objects \<^verbatim>\<open>knn\<close>, \<^verbatim>\<open>svm\<close> and \<^verbatim>\<open>dt\<close> as constructed: same class, the
  hyperparameters of the constructor, not fitted. The diversity score computed afterwards
  is therefore the statistic of the predictions of the three learners fit with their
  constructor hyperparameters on the training part: it does not depend on the scores, the
  folds or the candidate the search selects.
\<close>

theorem grid_search_leaves_base_learners:
  "\<exists>s best_params best_estimator.
      grid_search_fit L initial_store stacking_model param_grid 5 train
        = Inr (s, best_params, best_estimator)
      \<and> s ! knn = initial_store ! knn \<and> s ! svm = initial_store ! svm \<and> s ! dt = initial_store ! dt
      \<and> s ! knn = Base ''KNeighborsClassifier'' knn_params None
      \<and> s ! svm = Base ''SVC'' svm_params None
      \<and> s ! dt = Base ''DecisionTreeClassifier'' dt_params None
      \<and> grid_search_then_diversity L train test =
           disagreements
             (predict L (learn L ''KNeighborsClassifier'' knn_params train) test)
             (predict L (learn L ''SVC'' svm_params train) test)
             (predict L (learn L ''DecisionTreeClassifier'' dt_params train) test)"
proof -
  from grid_search_fit_intact[of L 5 train]
  obtain s best_params best_estimator where
    g: "grid_search_fit L initial_store stacking_model param_grid 5 train
        = Inr (s, best_params, best_estimator)"
    and i: "take 5 s = initial_store" by blast
  have d: "grid_search_then_diversity L train test = diversity_stage L s train test"
    using g by (simp add: grid_search_then_diversity_def)
  show ?thesis
    using g d diversity_stage_intact[OF i, of L train test] intact_nth[OF i]
    by (simp add: knn_def svm_def dt_def initial_store_def)
qed

theorem grid_search_leaves_base_learners_witness:
  "grid_search_then_diversity L_ex 0 [[Some 1], [Some 2]] = Inr 0"
proof -
  from grid_search_leaves_base_learners[of L_ex 0 "[[Some 1], [Some 2]]"]
  have "grid_search_then_diversity L_ex 0 [[Some 1], [Some 2]] =
           disagreements
             (predict L_ex (learn L_ex ''KNeighborsClassifier'' knn_params 0) [[Some 1], [Some 2]])
             (predict L_ex (learn L_ex ''SVC'' svm_params 0) [[Some 1], [Some 2]])
             (predict L_ex (learn L_ex ''DecisionTreeClassifier'' dt_params 0) [[Some 1], [Some 2]])"
    by blast
  then show ?thesis
    by (simp add: L_ex_def knn_params_def svm_params_def dt_params_def disagreements_def
        vstack_T_def pairwise_distances_def hamming_def array_mean_def)
qed

end
